theory Spec2Isabelle
  imports Complex_Main "HOL-Library.Sublist"
begin

section \<open>Python exceptions as values\<close>

text \<open>
  Every exception the modelled code can raise or catch is a value of \<open>pyerr\<close>; a fallible
  call returns \<open>pyerr + 'a\<close> with \<open>Inl\<close> for the raised exception. \<open>OtherError\<close> carries
  the \<open>message\<close> attribute of any other exception class.
\<close>

datatype pyerr =
    KeyError string
  | IndexError string
  | TypeError string
  | AttributeError string
  | UnicodeDecodeError
  | StopIteration
  | OtherError string

section \<open>io.get_reader\<close>

text \<open>The module-level reader functions of \<open>tabutils.io\<close> that \<open>getattr\<close> can return.\<close>

datatype reader_fn =
    read_mdb | read_dbf | read_sqlite | read_csv | read_tsv | read_fixed_csv
  | read_xls | read_json | read_geojson_fn

text \<open>The literal dictionary \<open>switch\<close> of \<open>get_reader\<close>, in source order.\<close>

definition switch :: "(string \<times> string) list" where
  "switch =
    [(''csv'', ''read_csv''),
     (''xls'', ''read_xls''),
     (''xlsx'', ''read_xls''),
     (''mdb'', ''read_mdb''),
     (''json'', ''read_json''),
     (''geojson'', ''read_geojson''),
     (''geojson.json'', ''read_geojson''),
     (''sqlite'', ''read_sqlite''),
     (''dbf'', ''read_dbf''),
     (''tsv'', ''read_tsv'')]"

text \<open>
  \<open>getattr(module, name)\<close> on the module \<open>tabutils.io\<close>: the reader functions the module
  defines at top level; any other name raises \<open>AttributeError\<close>.
\<close>

definition module_getattr :: "string \<Rightarrow> pyerr + reader_fn" where
  "module_getattr name =
    (if name = ''read_mdb'' then Inr read_mdb
     else if name = ''read_dbf'' then Inr read_dbf
     else if name = ''read_sqlite'' then Inr read_sqlite
     else if name = ''read_csv'' then Inr read_csv
     else if name = ''read_tsv'' then Inr read_tsv
     else if name = ''read_fixed_csv'' then Inr read_fixed_csv
     else if name = ''read_xls'' then Inr read_xls
     else if name = ''read_json'' then Inr read_json
     else if name = ''read_geojson'' then Inr read_geojson_fn
     else Inl (AttributeError name))"

text \<open>\<open>switch[extension]\<close>: a missing key raises \<open>KeyError\<close> carrying the key.\<close>

definition dict_getitem :: "(string \<times> 'v) list \<Rightarrow> string \<Rightarrow> pyerr + 'v" where
  "dict_getitem d k = (case map_of d k of None \<Rightarrow> Inl (KeyError k) | Some v \<Rightarrow> Inr v)"

text \<open>
  The body of the \<open>try\<close> block, then the handler: only an \<open>IndexError\<close> is turned into
  the \<open>TypeError\<close> of the source; every other exception leaves the function unchanged.
\<close>

definition get_reader_try :: "string \<Rightarrow> pyerr + reader_fn" where
  "get_reader_try extension =
    (case dict_getitem switch extension of
       Inl e \<Rightarrow> Inl e
     | Inr name \<Rightarrow> module_getattr name)"

definition get_reader :: "string \<Rightarrow> pyerr + reader_fn" where
  "get_reader extension =
    (case get_reader_try extension of
       Inl (IndexError _) \<Rightarrow>
         Inl (TypeError (''Reader for extension `'' @ extension @ ''` not found!''))
     | Inl e \<Rightarrow> Inl e
     | Inr r \<Rightarrow> Inr r)"

section \<open>io.IterStringIO\<close>

text \<open>
  The pending input \<open>self.iter\<close> is a Python iterator; it is modelled by the finite list
  of the elements it still has to produce. Three kinds of element occur in it and in the
  lookback deque \<open>self.last\<close>: a string (an encoded character of the input, or the
  string \<open>'\n'\<close> that \<open>_read\<close> appends to the deque) and an integer (an element of a
  \<open>bytearray\<close>, which is what \<open>self.last.extend(byte)\<close> stores).
\<close>

datatype elem = EStr string | EInt char

record IterStringIO =
  iter :: "elem list"
  last_deque :: "elem list"
  maxlen :: nat
  pos :: nat

text \<open>
  \<open>collections.deque\<close> with \<open>maxlen\<close>: an append at the right end discards from the left
  end whatever exceeds the capacity; \<open>extend\<close> appends the elements one by one.
\<close>

definition deque_append :: "nat \<Rightarrow> 'a list \<Rightarrow> 'a \<Rightarrow> 'a list" where
  "deque_append m d x = (let ys = d @ [x] in drop (length ys - m) ys)"

definition deque_extend :: "nat \<Rightarrow> 'a list \<Rightarrow> 'a list \<Rightarrow> 'a list" where
  "deque_extend m d xs = foldl (deque_append m) d xs"

text \<open>
  Modelled from the spec: \<open>fntools.byte\<close>, which is not among the sources. It
  ``assembles an iterable of single characters/bytes into one contiguous byte
  sequence'': a string element contributes its bytes, an integer element one byte.
\<close>

fun elem_bytes :: "elem \<Rightarrow> string" where
  "elem_bytes (EStr s) = s"
| "elem_bytes (EInt c) = [c]"

definition byte :: "elem list \<Rightarrow> string" where
  "byte content = concat (map elem_bytes content)"

text \<open>
  \<open>_chain\<close>: \<open>it.chain.from_iterable(it.ifilter(None, iterable))\<close> drops the empty
  fragments and flattens the others into their characters. \<open>_encode\<close> encodes every
  character with the process-wide \<open>ENCODING\<close>, whose value is not among the sources: the
  encoding of one character is the parameter \<open>encode\<close>.
\<close>

definition chain :: "'c list list \<Rightarrow> 'c list" where
  "chain iterable = concat (filter (\<lambda>fragment. fragment \<noteq> []) iterable)"

definition encode_all :: "('c \<Rightarrow> string) \<Rightarrow> 'c list \<Rightarrow> elem list" where
  "encode_all encode iterable = map (\<lambda>s. EStr (encode s)) iterable"

definition IterStringIO_init :: "('c \<Rightarrow> string) \<Rightarrow> 'c list list \<Rightarrow> nat \<Rightarrow> IterStringIO" where
  "IterStringIO_init encode iterable bufsize =
    \<lparr>iter = encode_all encode (chain iterable), last_deque = [], maxlen = bufsize, pos = 0\<rparr>"

text \<open>
  \<open>it.islice(iterable, n) if n else iterable\<close>: the limit applies only when \<open>n\<close> is
  truthy, so both \<open>None\<close> and \<open>0\<close> leave the iterable unlimited. The limit is a natural
  number here (\<open>islice\<close> rejects a negative one).
\<close>

definition truthy_limit :: "nat option \<Rightarrow> bool" where
  "truthy_limit n = (case n of None \<Rightarrow> False | Some k \<Rightarrow> k \<noteq> 0)"

definition islice_if :: "'a list \<Rightarrow> nat option \<Rightarrow> 'a list" where
  "islice_if iterable n = (if truthy_limit n then take (the n) iterable else iterable)"

text \<open>
  \<open>_read\<close>, given the elements that the (possibly limited) iterable hands to \<open>ft.byte\<close>:
  the bytes are pushed on the deque, the position advances by their number, and the
  string \<open>'\n'\<close> is pushed after them.
\<close>

definition IterStringIO_read_elems :: "IterStringIO \<Rightarrow> elem list \<Rightarrow> string \<times> IterStringIO" where
  "IterStringIO_read_elems self taken =
    (let b = byte taken;
         last1 = deque_extend (maxlen self) (last_deque self) (map EInt b);
         pos1 = pos self + length b;
         last2 = deque_append (maxlen self) last1 (EStr [CHR 0x0A])
     in (b, self\<lparr>last_deque := last2, pos := pos1\<rparr>))"

text \<open>\<open>read(n)\<close> is \<open>_read(self.iter, n)\<close>: what the slice consumed is gone from \<open>self.iter\<close>.\<close>

definition IterStringIO_read :: "IterStringIO \<Rightarrow> nat option \<Rightarrow> string \<times> IterStringIO" where
  "IterStringIO_read self n =
    (let taken = islice_if (iter self) n
     in IterStringIO_read_elems (self\<lparr>iter := drop (length taken) (iter self)\<rparr>) taken)"

text \<open>
  The key function of \<open>lines\<close>, \<open>lambda s: s not in newlines\<close>, negated: an integer is
  never equal to one of the three strings.
\<close>

fun is_newline :: "elem \<Rightarrow> bool" where
  "is_newline (EStr s) = (s = [CHR 0x0A] \<or> s = [CHR 0x0D] \<or> s = [CHR 0x0D, CHR 0x0A])"
| "is_newline (EInt c) = False"

text \<open>
  \<open>readline(n)\<close> is \<open>_read(self.lines.next(), n)\<close>. Each access to the property \<open>lines\<close>
  starts a fresh \<open>groupby\<close> over \<open>self.iter\<close>; its first group of non-newline elements is
  the line. \<open>groupby\<close> pulls the leading newline elements while skipping their group, and
  pulls the element that ends the line only when the group is asked for one more
  element than it has, which a limit \<open>n\<close> not larger than the line prevents. With no
  non-newline element left, \<open>next\<close> raises \<open>StopIteration\<close> and the input is used up.
\<close>

definition IterStringIO_readline ::
  "IterStringIO \<Rightarrow> nat option \<Rightarrow> (pyerr + string) \<times> IterStringIO" where
  "IterStringIO_readline self n =
    (let ys = dropWhile is_newline (iter self) in
     if ys = [] then (Inl StopIteration, self\<lparr>iter := []\<rparr>)
     else
       let g = takeWhile (\<lambda>s. \<not> is_newline s) ys;
           taken = islice_if g n;
           rest = (if truthy_limit n \<and> the n \<le> length g then drop (length taken) ys
                   else drop 1 (dropWhile (\<lambda>s. \<not> is_newline s) ys));
           (b, self1) = IterStringIO_read_elems (self\<lparr>iter := rest\<rparr>) taken
       in (Inr b, self1))"

text \<open>\<open>write\<close> chains the encoded new fragments after the pending input.\<close>

definition IterStringIO_write :: "('c \<Rightarrow> string) \<Rightarrow> IterStringIO \<Rightarrow> 'c list list \<Rightarrow> IterStringIO" where
  "IterStringIO_write encode self iterable =
    self\<lparr>iter := iter self @ encode_all encode (chain iterable)\<rparr>"

text \<open>
  \<open>seek(n)\<close> puts \<open>list(self.last)[n:]\<close> in front of the pending input and sets the
  position to \<open>n\<close> (a natural number here).
\<close>

definition IterStringIO_seek :: "IterStringIO \<Rightarrow> nat \<Rightarrow> IterStringIO" where
  "IterStringIO_seek self n = self\<lparr>iter := drop n (last_deque self) @ iter self, pos := n\<rparr>"

definition IterStringIO_tell :: "IterStringIO \<Rightarrow> nat" where
  "IterStringIO_tell self = pos self"

section \<open>typetools: type_test and guess_type_by_field\<close>

text \<open>Python's \<open>sub in text\<close> on strings: \<open>sub\<close> occurs in \<open>text\<close> as a contiguous run.\<close>

fun contains :: "string \<Rightarrow> string \<Rightarrow> bool" where
  "contains sub [] = (sub = [])"
| "contains sub (c # cs) = (prefix sub (c # cs) \<or> contains sub cs)"

text \<open>
  Python's \<open>text.replace(old, new)\<close>: the occurrences of \<open>old\<close> are replaced from left to
  right without overlap; an empty \<open>old\<close> matches before every character and at the end.
\<close>

fun replace_nonempty :: "string \<Rightarrow> string \<Rightarrow> string \<Rightarrow> string" where
  "replace_nonempty old new [] = []"
| "replace_nonempty old new (c # cs) =
    (if prefix old (c # cs) then new @ replace_nonempty old new (drop (length old - 1) cs)
     else c # replace_nonempty old new cs)"

definition replace :: "string \<Rightarrow> string \<Rightarrow> string \<Rightarrow> string" where
  "replace text old new =
    (if old = [] then new @ concat (map (\<lambda>c. c # new) text)
     else replace_nonempty old new text)"

text \<open>
  Modelled from the spec: \<open>fntools.mreplace\<close>, which is not among the sources. It
  ``applies an ordered list of (find, replace) substring substitutions to text
  sequentially, left to right''.
\<close>

definition mreplace :: "string \<Rightarrow> (string \<times> string) list \<Rightarrow> string" where
  "mreplace text replacements = foldl (\<lambda>t (old, new). replace t old new) text replacements"

text \<open>Python's \<open>text.strip(chars)\<close>: the characters of \<open>chars\<close> are removed from both ends.\<close>

definition strip :: "string \<Rightarrow> string \<Rightarrow> string" where
  "strip text chars =
    rev (dropWhile (\<lambda>c. c \<in> set chars) (rev (dropWhile (\<lambda>c. c \<in> set chars) text)))"

text \<open>
  Modelled from the spec: \<open>fntools.find\<close> with \<open>method='fuzzy'\<close>, which is not among the
  sources. It ``tests whether any candidate matches any target'', fuzzy meaning
  ``substring containment rather than exact equality''; the target is the substring,
  as the documented result \<open>float\<close> for the name \<open>raw_value\<close> requires. The truth value
  of what \<open>find\<close> returns is all that \<open>type_test\<close> uses of it.
\<close>

definition find_fuzzy :: "string list \<Rightarrow> string list \<Rightarrow> bool" where
  "find_fuzzy targets candidates =
    list_ex (\<lambda>target. list_ex (\<lambda>candidate. contains target candidate) candidates) targets"

text \<open>
  \<open>type_test(test, _type, key, value)\<close>. A test returns the truth value of its result
  or raises. Only an \<open>AttributeError\<close> is caught: the result then carries the name of the
  value's runtime type, cut out of \<open>str(type(value))\<close>, which the parameter \<open>type_str\<close>
  supplies. A test that does not pass gives \<open>None\<close>.
\<close>

definition type_test ::
  "('v \<Rightarrow> string) \<Rightarrow> ('v \<Rightarrow> pyerr + bool) \<Rightarrow> string \<Rightarrow> 'k \<Rightarrow> 'v \<Rightarrow> pyerr + ('k \<times> string) option"
where
  "type_test type_str test type key value =
    (case test value of
       Inl (AttributeError _) \<Rightarrow>
         (let replacements = [(''type'', ''''), (''datetime.'', '''')];
              real_type = strip (mreplace (type_str value) replacements)
                            [CHR '' '', CHR 0x27, CHR ''<'', CHR ''>'']
          in Inr (Some (key, real_type)))
     | Inl e \<Rightarrow> Inl e
     | Inr passed \<Rightarrow> Inr (if passed then Some (key, type) else None))"

text \<open>
  The inner loop \<open>for g in guess_funcs\<close> of both guessing functions: the first
  result that is not \<open>None\<close> ends the loop; \<open>Inr None\<close> says that the loop ran to its end.
\<close>

fun first_guess ::
  "('v \<Rightarrow> string) \<Rightarrow> (string \<times> ('v \<Rightarrow> pyerr + bool)) list \<Rightarrow> 'k \<Rightarrow> 'v
    \<Rightarrow> pyerr + ('k \<times> string) option"
where
  "first_guess type_str [] key value = Inr None"
| "first_guess type_str (g # gs) key value =
    (case type_test type_str (snd g) (fst g) key value of
       Inl e \<Rightarrow> Inl e
     | Inr (Some result) \<Rightarrow> Inr (Some result)
     | Inr None \<Rightarrow> first_guess type_str gs key value)"

text \<open>
  A generator is modelled by what it yields until it stops and the exception that
  stopped it, if one did.
\<close>

type_synonym 'a gen = "'a list \<times> pyerr option"

definition yield :: "'a \<Rightarrow> 'a gen \<Rightarrow> 'a gen" where
  "yield x g = (x # fst g, snd g)"

definition floats :: "string list" where
  "floats = [''value'', ''length'', ''width'', ''days'']"

definition field_guess_funcs :: "(string \<times> (string \<Rightarrow> pyerr + bool)) list" where
  "field_guess_funcs =
    [(''datetime'', \<lambda>x. Inr (contains ''date'' x \<and> contains ''time'' x)),
     (''date'', \<lambda>x. Inr (contains ''date'' x)),
     (''time'', \<lambda>x. Inr (contains ''time'' x)),
     (''float'', \<lambda>x. Inr (find_fuzzy floats [x])),
     (''int'', \<lambda>x. Inr (contains ''count'' x)),
     (''text'', \<lambda>x. Inr True)]"

text \<open>\<open>str(type(item))\<close> of a field name, a text string.\<close>

definition unicode_type_str :: string where
  "unicode_type_str = ''<type '' @ [CHR 0x27] @ ''unicode'' @ [CHR 0x27] @ ''>''"

fun guess_type_by_field :: "string list \<Rightarrow> (string \<times> string) gen" where
  "guess_type_by_field [] = ([], None)"
| "guess_type_by_field (item # content) =
    (case first_guess (\<lambda>_. unicode_type_str) field_guess_funcs item item of
       Inl e \<Rightarrow> ([], Some e)
     | Inr None \<Rightarrow> guess_type_by_field content
     | Inr (Some result) \<Rightarrow> yield result (guess_type_by_field content))"

section \<open>Python values\<close>

text \<open>
  The scalar values that the value-based guessing sees: \<open>None\<close>, booleans, integers,
  floats (a finite float is given by its exact rational value), text strings, the
  naive \<open>date\<close>, \<open>time\<close> and \<open>datetime\<close> objects of the module \<open>datetime\<close>, and lists
  as an example of a value that has none of the attributes the code asks for.
\<close>

record pydate =
  year :: nat
  month :: nat
  day :: nat

record pytime =
  hour :: nat
  minute :: nat
  second :: nat
  microsecond :: nat

datatype pyval =
    PyNone
  | PyBool bool
  | PyInt int
  | PyFloat rat
  | PyStr string
  | PyDate pydate
  | PyTime pytime
  | PyDatetime pydate pytime
  | PyList "pyval list"

text \<open>
  Truth value of an object. The code is Python 2, where a naive \<open>time\<close> is false at
  midnight; \<open>date\<close> and \<open>datetime\<close> objects are always true.
\<close>

fun truthy :: "pyval \<Rightarrow> bool" where
  "truthy PyNone = False"
| "truthy (PyBool b) = b"
| "truthy (PyInt i) = (i \<noteq> 0)"
| "truthy (PyFloat x) = (x \<noteq> 0)"
| "truthy (PyStr s) = (s \<noteq> [])"
| "truthy (PyDate d) = True"
| "truthy (PyTime t) = (hour t * 60 + minute t \<noteq> 0 \<or> second t \<noteq> 0 \<or> microsecond t \<noteq> 0)"
| "truthy (PyDatetime d t) = True"
| "truthy (PyList xs) = (xs \<noteq> [])"

text \<open>\<open>a and b\<close>: the first operand if it is false, else the second.\<close>

definition py_and :: "pyval \<Rightarrow> pyval \<Rightarrow> pyval" where
  "py_and a b = (if truthy a then b else a)"

text \<open>\<open>str(type(value))\<close>.\<close>

definition type_repr :: "string \<Rightarrow> string" where
  "type_repr name = ''<type '' @ [CHR 0x27] @ name @ [CHR 0x27] @ ''>''"

fun py_type_str :: "pyval \<Rightarrow> string" where
  "py_type_str PyNone = type_repr ''NoneType''"
| "py_type_str (PyBool b) = type_repr ''bool''"
| "py_type_str (PyInt i) = type_repr ''int''"
| "py_type_str (PyFloat x) = type_repr ''float''"
| "py_type_str (PyStr s) = type_repr ''unicode''"
| "py_type_str (PyDate d) = type_repr ''datetime.date''"
| "py_type_str (PyTime t) = type_repr ''datetime.time''"
| "py_type_str (PyDatetime d t) = type_repr ''datetime.datetime''"
| "py_type_str (PyList xs) = type_repr ''list''"

text \<open>Decimal digits, zero-padded, as \<open>isoformat\<close> prints the fields.\<close>

definition digit :: "nat \<Rightarrow> char" where
  "digit n = ''0123456789'' ! (n mod 10)"

definition pad2 :: "nat \<Rightarrow> string" where
  "pad2 n = [digit (n div 10), digit n]"

definition pad4 :: "nat \<Rightarrow> string" where
  "pad4 n = pad2 (n div 100) @ pad2 n"

definition pad6 :: "nat \<Rightarrow> string" where
  "pad6 n = pad2 (n div 10000) @ pad4 n"

definition time_isoformat :: "pytime \<Rightarrow> string" where
  "time_isoformat t =
    pad2 (hour t) @ '':'' @ pad2 (minute t) @ '':'' @ pad2 (second t)
    @ (if microsecond t = 0 then [] else ''.'' @ pad6 (microsecond t))"

definition date_isoformat :: "pydate \<Rightarrow> string" where
  "date_isoformat d = pad4 (year d) @ ''-'' @ pad2 (month d) @ ''-'' @ pad2 (day d)"

text \<open>
  The attributes the predicates use. A method that the object does not have raises
  \<open>AttributeError\<close>: only a \<open>datetime\<close> has \<open>date()\<close> and \<open>time()\<close>; \<open>date\<close> and \<open>datetime\<close>
  have \<open>timetuple\<close> and \<open>year\<close>; \<open>date\<close>, \<open>time\<close> and \<open>datetime\<close> have \<open>isoformat()\<close>; only
  a string has \<open>lower\<close>.
\<close>

fun date_method :: "pyval \<Rightarrow> pyerr + pydate" where
  "date_method (PyDatetime d t) = Inr d"
| "date_method v = Inl (AttributeError ''date'')"

fun time_method :: "pyval \<Rightarrow> pyerr + pytime" where
  "time_method (PyDatetime d t) = Inr t"
| "time_method v = Inl (AttributeError ''time'')"

fun hasattr_timetuple :: "pyval \<Rightarrow> bool" where
  "hasattr_timetuple (PyDate d) = True"
| "hasattr_timetuple (PyDatetime d t) = True"
| "hasattr_timetuple v = False"

fun year_attr :: "pyval \<Rightarrow> pyerr + nat" where
  "year_attr (PyDate d) = Inr (year d)"
| "year_attr (PyDatetime d t) = Inr (year d)"
| "year_attr v = Inl (AttributeError ''year'')"

fun isoformat_method :: "pyval \<Rightarrow> pyerr + string" where
  "isoformat_method (PyDate d) = Inr (date_isoformat d)"
| "isoformat_method (PyTime t) = Inr (time_isoformat t)"
| "isoformat_method (PyDatetime d t) = Inr (date_isoformat d @ ''T'' @ time_isoformat t)"
| "isoformat_method v = Inl (AttributeError ''isoformat'')"

fun hasattr_lower :: "pyval \<Rightarrow> bool" where
  "hasattr_lower (PyStr s) = True"
| "hasattr_lower v = False"

section \<open>typetools: is_date, is_time, is_datetime\<close>

definition NULL_YEAR :: nat where
  "NULL_YEAR = 9999"

definition NULL_TIME :: string where
  "NULL_TIME = ''00:00:00''"

text \<open>
  The statement that opens the three predicates,
  \<open>try: converted = cv.to_datetime(content) except TypeError: converted = content\<close>.
  The module \<open>convert\<close> is not among the sources: \<open>to_datetime\<close> is a parameter, a
  function that returns a value or raises. Any exception but \<open>TypeError\<close> leaves the
  predicate.
\<close>

definition try_to_datetime :: "(pyval \<Rightarrow> pyerr + pyval) \<Rightarrow> pyval \<Rightarrow> pyerr + pyval" where
  "try_to_datetime to_datetime content =
    (case to_datetime content of
       Inl (TypeError _) \<Rightarrow> Inr content
     | Inl e \<Rightarrow> Inl e
     | Inr converted \<Rightarrow> Inr converted)"

text \<open>
  \<open>is_date\<close>: the year of \<open>converted.date()\<close>; without a \<open>date\<close> method the year of the
  object if it has \<open>timetuple\<close> (it is a date), else \<open>NULL_YEAR\<close> (it is a time).
\<close>

definition is_date :: "(pyval \<Rightarrow> pyerr + pyval) \<Rightarrow> pyval \<Rightarrow> pyerr + pyval" where
  "is_date to_datetime content =
    (case try_to_datetime to_datetime content of
       Inl e \<Rightarrow> Inl e
     | Inr converted \<Rightarrow>
        (case (case date_method converted of
                 Inr d \<Rightarrow> Inr (year d)
               | Inl (AttributeError _) \<Rightarrow>
                   (if hasattr_timetuple converted then year_attr converted else Inr NULL_YEAR)
               | Inl e \<Rightarrow> Inl e) of
           Inl e \<Rightarrow> Inl e
         | Inr the_year \<Rightarrow> Inr (py_and converted (PyBool (the_year \<noteq> NULL_YEAR)))))"

text \<open>
  \<open>is_time\<close>: the ISO format of \<open>converted.time()\<close>; without a \<open>time\<close> method
  \<open>NULL_TIME\<close> if the object has \<open>timetuple\<close> (it is a date), else the ISO format of the
  object itself (it is a time), an \<open>AttributeError\<close> where it has no \<open>isoformat\<close>.
\<close>

definition is_time :: "(pyval \<Rightarrow> pyerr + pyval) \<Rightarrow> pyval \<Rightarrow> pyerr + pyval" where
  "is_time to_datetime content =
    (case try_to_datetime to_datetime content of
       Inl e \<Rightarrow> Inl e
     | Inr converted \<Rightarrow>
        (case (case time_method converted of
                 Inr t \<Rightarrow> Inr (time_isoformat t)
               | Inl (AttributeError _) \<Rightarrow>
                   (if hasattr_timetuple converted then Inr NULL_TIME
                    else isoformat_method converted)
               | Inl e \<Rightarrow> Inl e) of
           Inl e \<Rightarrow> Inl e
         | Inr the_time \<Rightarrow> Inr (py_and converted (PyBool (the_time \<noteq> NULL_TIME)))))"

text \<open>
  \<open>is_datetime\<close>: year and time of day come from the \<open>date()\<close> and \<open>time()\<close> methods
  alone, the sentinels standing in where a method is missing.
\<close>

definition is_datetime :: "(pyval \<Rightarrow> pyerr + pyval) \<Rightarrow> pyval \<Rightarrow> pyerr + pyval" where
  "is_datetime to_datetime content =
    (case try_to_datetime to_datetime content of
       Inl e \<Rightarrow> Inl e
     | Inr converted \<Rightarrow>
        (case (case date_method converted of
                 Inr d \<Rightarrow> Inr (year d)
               | Inl (AttributeError _) \<Rightarrow> Inr NULL_YEAR
               | Inl e \<Rightarrow> Inl e) of
           Inl e \<Rightarrow> Inl e
         | Inr the_year \<Rightarrow>
            (case (case time_method converted of
                     Inr t \<Rightarrow> Inr (time_isoformat t)
                   | Inl (AttributeError _) \<Rightarrow> Inr NULL_TIME
                   | Inl e \<Rightarrow> Inl e) of
               Inl e \<Rightarrow> Inl e
             | Inr the_time \<Rightarrow>
                (let has_date = py_and converted (PyBool (the_year \<noteq> NULL_YEAR));
                     has_time = py_and converted (PyBool (the_time \<noteq> NULL_TIME))
                 in Inr (py_and has_date has_time)))))"

text \<open>A call returned a true value, or returned a false one.\<close>

definition returns_true :: "pyerr + pyval \<Rightarrow> bool" where
  "returns_true r = (case r of Inl e \<Rightarrow> False | Inr v \<Rightarrow> truthy v)"

definition returns_false :: "pyerr + pyval \<Rightarrow> bool" where
  "returns_false r = (case r of Inl e \<Rightarrow> False | Inr v \<Rightarrow> \<not> truthy v)"

text \<open>
  An instance of the parameter \<open>to_datetime\<close> for the examples: a converter that
  rejects its input with \<open>TypeError\<close>, so that the predicates use the value as it is.
\<close>

definition to_datetime_reject :: "pyval \<Rightarrow> pyerr + pyval" where
  "to_datetime_reject content = Inl (TypeError ''not a date string'')"

text \<open>Another instance: a converter that fills a date up to a \<open>datetime\<close> at midnight.\<close>

definition to_datetime_fill :: "pyval \<Rightarrow> pyerr + pyval" where
  "to_datetime_fill content =
    (case content of
       PyDate d \<Rightarrow> Inr (PyDatetime d \<lparr>hour = 0, minute = 0, second = 0, microsecond = 0\<rparr>)
     | PyDatetime d t \<Rightarrow> Inr (PyDatetime d t)
     | _ \<Rightarrow> Inl (TypeError ''not a date string''))"

section \<open>typetools: guess_type_by_value\<close>

text \<open>
  The predicates \<open>is_null\<close>, \<open>is_bool\<close>, \<open>is_int\<close> and \<open>is_numeric\<close> of the module
  \<open>fntools\<close>, which is not among the sources, are parameters: functions that return a
  truth value or raise. \<open>is_null\<close> takes the option \<open>blanks_as_nulls\<close> first, \<open>is_int\<close> and
  \<open>is_numeric\<close> the option \<open>strip_zeros\<close>.
\<close>

record fntools =
  ft_is_null :: "bool \<Rightarrow> pyval \<Rightarrow> pyerr + bool"
  ft_is_bool :: "pyval \<Rightarrow> pyerr + bool"
  ft_is_int :: "bool \<Rightarrow> pyval \<Rightarrow> pyerr + bool"
  ft_is_numeric :: "bool \<Rightarrow> pyval \<Rightarrow> pyerr + bool"

text \<open>\<open>type_test\<close> looks at the truth value of what a predicate returned.\<close>

definition truth :: "pyerr + pyval \<Rightarrow> pyerr + bool" where
  "truth r = (case r of Inl e \<Rightarrow> Inl e | Inr v \<Rightarrow> Inr (truthy v))"

definition value_guess_funcs ::
  "fntools \<Rightarrow> (pyval \<Rightarrow> pyerr + pyval) \<Rightarrow> bool \<Rightarrow> bool \<Rightarrow> (string \<times> (pyval \<Rightarrow> pyerr + bool)) list"
where
  "value_guess_funcs ft to_datetime blanks_as_nulls strip_zeros =
    [(''null'', ft_is_null ft blanks_as_nulls),
     (''bool'', ft_is_bool ft),
     (''int'', ft_is_int ft strip_zeros),
     (''float'', ft_is_numeric ft strip_zeros),
     (''datetime'', \<lambda>x. truth (is_datetime to_datetime x)),
     (''time'', \<lambda>x. truth (is_time to_datetime x)),
     (''date'', \<lambda>x. truth (is_date to_datetime x)),
     (''text'', \<lambda>x. Inr (hasattr_lower x))]"

text \<open>
  The message \<open>"Couldn't guess type of '%s'" % value\<close>; the text of the value is the
  parameter \<open>value_str\<close>.
\<close>

definition guess_error :: "(pyval \<Rightarrow> string) \<Rightarrow> pyval \<Rightarrow> pyerr" where
  "guess_error value_str value =
    TypeError (''Couldn'' @ [CHR 0x27] @ ''t guess type of '' @ [CHR 0x27] @ value_str value
               @ [CHR 0x27])"

text \<open>
  The record is the list of its items in the order \<open>iteritems()\<close> gives them. The
  \<open>else\<close> of the inner loop raises where no rule gave a result.
\<close>

fun guess_type_by_value ::
  "fntools \<Rightarrow> (pyval \<Rightarrow> pyerr + pyval) \<Rightarrow> (pyval \<Rightarrow> string) \<Rightarrow> bool \<Rightarrow> bool
    \<Rightarrow> (string \<times> pyval) list \<Rightarrow> (string \<times> string) gen"
where
  "guess_type_by_value ft to_datetime value_str blanks_as_nulls strip_zeros [] = ([], None)"
| "guess_type_by_value ft to_datetime value_str blanks_as_nulls strip_zeros (item # items) =
    (case first_guess py_type_str
            (value_guess_funcs ft to_datetime blanks_as_nulls strip_zeros) (fst item) (snd item) of
       Inl e \<Rightarrow> ([], Some e)
     | Inr (Some result) \<Rightarrow>
         yield result
           (guess_type_by_value ft to_datetime value_str blanks_as_nulls strip_zeros items)
     | Inr None \<Rightarrow> ([], Some (guess_error value_str (snd item))))"

text \<open>The runtime type name that \<open>type_test\<close> reports after an \<open>AttributeError\<close>.\<close>

definition real_type :: "pyval \<Rightarrow> string" where
  "real_type value =
    strip (mreplace (py_type_str value) [(''type'', ''''), (''datetime.'', '''')])
      [CHR '' '', CHR 0x27, CHR ''<'', CHR ''>'']"

text \<open>
  An instance of the \<open>fntools\<close> predicates for the examples, which apply it to lists and
  to date and time objects only: none of these is null, boolean or a number.
\<close>

definition ft_no_scalar :: fntools where
  "ft_no_scalar =
    \<lparr>ft_is_null = (\<lambda>blanks_as_nulls value. Inr False),
     ft_is_bool = (\<lambda>value. Inr False),
     ft_is_int = (\<lambda>strip_zeros value. Inr False),
     ft_is_numeric = (\<lambda>strip_zeros value. Inr False)\<rparr>"

text \<open>An instance of \<open>value_str\<close> for the examples, defined on the time of day only.\<close>

definition example_str :: "pyval \<Rightarrow> string" where
  "example_str value = (case value of PyTime t \<Rightarrow> time_isoformat t | _ \<Rightarrow> ''?'')"

section \<open>io: files, detect_encoding, get_utf8\<close>

text \<open>
  A file object: its bytes and the position of the next read or write. \<open>seek\<close> sets
  the position, \<open>tell\<close> reads it, \<open>read()\<close> returns the bytes from the position to the
  end, \<open>write\<close> puts bytes at the position, and iterating over the file gives the lines
  from the position on, each with the newline that ends it.
\<close>

record pyfile =
  file_bytes :: string
  file_pos :: nat

definition file_seek :: "pyfile \<Rightarrow> nat \<Rightarrow> pyfile" where
  "file_seek f n = f\<lparr>file_pos := n\<rparr>"

definition file_tell :: "pyfile \<Rightarrow> nat" where
  "file_tell f = file_pos f"

definition file_read :: "pyfile \<Rightarrow> string \<times> pyfile" where
  "file_read f = (drop (file_pos f) (file_bytes f), f\<lparr>file_pos := max (file_pos f) (length (file_bytes f))\<rparr>)"

definition file_write :: "pyfile \<Rightarrow> string \<Rightarrow> pyfile" where
  "file_write f s =
    \<lparr>file_bytes = take (file_pos f) (file_bytes f) @ replicate (file_pos f - length (file_bytes f)) (CHR 0x00)
               @ s @ drop (file_pos f + length s) (file_bytes f),
     file_pos = file_pos f + length s\<rparr>"

fun split_lines :: "string \<Rightarrow> string \<Rightarrow> string list" where
  "split_lines line [] = (if line = [] then [] else [line])"
| "split_lines line (c # cs) =
    (if c = CHR 0x0A then (line @ [c]) # split_lines [] cs else split_lines (line @ [c]) cs)"

definition file_lines :: "pyfile \<Rightarrow> string list" where
  "file_lines f = split_lines [] (drop (file_pos f) (file_bytes f))"

text \<open>
  The encoding detection engine (\<open>chardet.UniversalDetector\<close>) is outside the
  repository: it is a parameter, a state machine that is fed lines, says when it is
  done, is closed, and then holds its result, an encoding label and a confidence.
\<close>

record detection =
  det_encoding :: pyval
  det_confidence :: rat

record 's detector =
  det_new :: 's
  det_feed :: "'s \<Rightarrow> string \<Rightarrow> 's"
  det_done :: "'s \<Rightarrow> bool"
  det_close :: "'s \<Rightarrow> 's"
  det_result :: "'s \<Rightarrow> detection"

text \<open>The loop \<open>for line in f: detector.feed(line); if detector.done: break\<close>.\<close>

fun feed_lines :: "'s detector \<Rightarrow> 's \<Rightarrow> string list \<Rightarrow> 's" where
  "feed_lines det s [] = s"
| "feed_lines det s (line # rest) =
    (let s1 = det_feed det s line in if det_done det s1 then s1 else feed_lines det s1 rest)"

text \<open>
  \<open>detect_encoding(f, verbose)\<close> remembers the position, feeds the lines that follow it,
  closes the detector and seeks back; \<open>verbose\<close> only prints.
\<close>

definition detect_encoding :: "'s detector \<Rightarrow> pyfile \<Rightarrow> bool \<Rightarrow> detection \<times> pyfile" where
  "detect_encoding det f verbose =
    (let pos = file_tell f;
         s = feed_lines det (det_new det) (file_lines f);
         s1 = det_close det s;
         f1 = file_seek f pos
     in (det_result det s1, f1))"

text \<open>
  Text is a list of code points. The codecs and the value of the process-wide
  \<open>ENCODING\<close> are not among the sources: \<open>decode\<close> (\<open>unicode(bytes, encoding)\<close> and
  \<open>bytes.decode(encoding)\<close>) and \<open>encode\<close> are parameters that return a value or raise.
\<close>

type_synonym unicode = "nat list"

record codecs =
  cd_ENCODING :: string
  cd_decode :: "pyval \<Rightarrow> string \<Rightarrow> pyerr + unicode"
  cd_encode :: "pyval \<Rightarrow> unicode \<Rightarrow> pyerr + string"

text \<open>
  \<open>get_utf8(f, encoding, remove_BOM)\<close>: the rest of the file is decoded and encoded
  again with \<open>ENCODING\<close> into a new buffer; with \<open>remove_BOM\<close> the first line of the buffer
  loses its leading byte order marks. The result is the new buffer at position 0, and
  the file \<open>f\<close> as the read left it.
\<close>

definition lstrip_bom :: "unicode \<Rightarrow> unicode" where
  "lstrip_bom line = dropWhile (\<lambda>c. c = 0xFEFF) line"

definition get_utf8 :: "codecs \<Rightarrow> pyfile \<Rightarrow> pyval \<Rightarrow> bool \<Rightarrow> pyerr + (pyfile \<times> pyfile)" where
  "get_utf8 cd f enc remove_BOM =
    (let (data, f1) = file_read f in
     case cd_decode cd enc data of
       Inl e \<Rightarrow> Inl e
     | Inr decoded \<Rightarrow>
        (case cd_encode cd (PyStr (cd_ENCODING cd)) decoded of
           Inl e \<Rightarrow> Inl e
         | Inr utf8 \<Rightarrow>
            (if remove_BOM then
               (case split_lines [] utf8 of
                  [] \<Rightarrow> Inr (\<lparr>file_bytes = [], file_pos = 0\<rparr>, f1)
                | line # rest \<Rightarrow>
                   (case cd_decode cd (PyStr (cd_ENCODING cd)) line of
                      Inl e \<Rightarrow> Inl e
                    | Inr u \<Rightarrow>
                       (case cd_encode cd (PyStr (cd_ENCODING cd)) (lstrip_bom u) of
                          Inl e \<Rightarrow> Inl e
                        | Inr line1 \<Rightarrow>
                            Inr (\<lparr>file_bytes = concat (line1 # rest), file_pos = 0\<rparr>, f1))))
             else Inr (\<lparr>file_bytes = utf8, file_pos = 0\<rparr>, f1))))"

section \<open>io: the driver read_any\<close>

text \<open>The attribute \<open>message\<close> of an exception.\<close>

fun err_message :: "pyerr \<Rightarrow> string" where
  "err_message (KeyError m) = m"
| "err_message (IndexError m) = m"
| "err_message (TypeError m) = m"
| "err_message (AttributeError m) = m"
| "err_message (OtherError m) = m"
| "err_message UnicodeDecodeError = []"
| "err_message StopIteration = []"

text \<open>
  \<open>for num, r in enumerate(records): if num >= pos: yield r\<close>, the loop of both retry
  branches.
\<close>

definition from_pos :: "nat \<Rightarrow> 'r list \<Rightarrow> 'r list" where
  "from_pos start records =
    map snd (filter (\<lambda>(num, r). num \<ge> start) (zip [0..<length records] records))"

text \<open>
  A reader is called with the file, the positional arguments and the keyword arguments;
  it is modelled by what it yields, the exception that stops it (if any), and the file as
  it leaves it.

  \<open>_read_any(f, reader, args, convert, **kwargs)\<close>. The first pass counts the records it
  yields (\<open>pos\<close> in the source, \<open>count\<close> here). A \<open>UnicodeDecodeError\<close> rewinds the file, detects the encoding, puts
  it into the keyword arguments and runs the reader again, yielding the records from
  that index on. Another exception whose message is \<open>line contains NULL byte\<close>, when
  \<open>convert\<close> is set, rewinds, recodes the file with \<open>get_utf8\<close> and runs the reader on the
  recoded buffer in the same way. Any other exception is raised again, and so is an
  exception of a second pass, which runs inside the handler.
\<close>

definition read_any_impl ::
  "codecs \<Rightarrow> 's detector \<Rightarrow> pyfile
    \<Rightarrow> (pyfile \<Rightarrow> 'a list \<Rightarrow> (string \<rightharpoonup> pyval) \<Rightarrow> 'r gen \<times> pyfile)
    \<Rightarrow> 'a list \<Rightarrow> bool \<Rightarrow> (string \<rightharpoonup> pyval) \<Rightarrow> 'r gen \<times> pyfile"
where
  "read_any_impl cd det f reader args convert kwargs =
    (let (g1, f1) = reader f args kwargs;
         count = length (fst g1)
     in case snd g1 of
          None \<Rightarrow> (g1, f1)
        | Some UnicodeDecodeError \<Rightarrow>
            (let f2 = file_seek f1 0;
                 (result, f3) = detect_encoding det f2 False;
                 kwargs2 = kwargs(''encoding'' \<mapsto> det_encoding result);
                 (g2, f4) = reader f3 args kwargs2
             in ((fst g1 @ from_pos count (fst g2), snd g2), f4))
        | Some err \<Rightarrow>
            (if err_message err = ''line contains NULL byte'' \<and> convert then
               (let f2 = file_seek f1 0 in
                case get_utf8 cd f2 (case kwargs ''encoding'' of None \<Rightarrow> PyNone | Some v \<Rightarrow> v)
                       True of
                  Inl e \<Rightarrow> ((fst g1, Some e), f2)
                | Inr (utf8_f, f3) \<Rightarrow>
                   (let kwargs2 = kwargs(''encoding'' \<mapsto> PyStr (cd_ENCODING cd));
                        (g2, utf8_f1) = reader utf8_f args kwargs2
                    in ((fst g1 @ from_pos count (fst g2), snd g2), f3)))
             else ((fst g1, Some err), f1)))"

text \<open>
  \<open>read_any(filepath, reader, mode, *args, **kwargs)\<close>: an object with a \<open>read\<close> attribute
  is read as it is, without conversion; a path is opened (the file system is the
  parameter \<open>open_file\<close>) and read with conversion allowed. The result carries the file
  as the read left it, if there was one.
\<close>

datatype source = Path string | FileObj pyfile

definition read_any ::
  "codecs \<Rightarrow> 's detector \<Rightarrow> (string \<Rightarrow> string \<Rightarrow> pyerr + pyfile) \<Rightarrow> source
    \<Rightarrow> (pyfile \<Rightarrow> 'a list \<Rightarrow> (string \<rightharpoonup> pyval) \<Rightarrow> 'r gen \<times> pyfile)
    \<Rightarrow> string \<Rightarrow> 'a list \<Rightarrow> (string \<rightharpoonup> pyval) \<Rightarrow> 'r gen \<times> pyfile option"
where
  "read_any cd det open_file filepath reader mode args kwargs =
    (case filepath of
       FileObj f \<Rightarrow>
         (let (g, f1) = read_any_impl cd det f reader args False kwargs in (g, Some f1))
     | Path p \<Rightarrow>
         (case open_file p mode of
            Inl e \<Rightarrow> (([], Some e), None)
          | Inr f \<Rightarrow>
             (let (g, f1) = read_any_impl cd det f reader args True kwargs in (g, Some f1))))"

text \<open>
  Instances of the parameters for the examples: a detector that answers \<open>utf-8\<close> after
  the first line, a codec that maps bytes to the code points of the same number, and a
  reader that yields the lines of the file, raising \<open>UnicodeDecodeError\<close> at a line with a
  byte above 127 unless the keyword argument \<open>encoding\<close> is \<open>utf-8\<close>.
\<close>

definition example_detector :: "unit detector" where
  "example_detector =
    \<lparr>det_new = (), det_feed = (\<lambda>s line. s), det_done = (\<lambda>s. True), det_close = (\<lambda>s. s),
     det_result = (\<lambda>s. \<lparr>det_encoding = PyStr ''utf-8'', det_confidence = 1\<rparr>)\<rparr>"

definition example_codecs :: codecs where
  "example_codecs =
    \<lparr>cd_ENCODING = ''utf-8'',
     cd_decode = (\<lambda>enc s. Inr (map of_char s)),
     cd_encode = (\<lambda>enc u. Inr (map char_of u))\<rparr>"




section \<open>io.write\<close>

text \<open>
  Modelled from the spec: \<open>fntools.chunk\<close>, which is not among the sources. It
  ``produces a lazy sequence of pieces of content, each at most chunksize elements
  long; when chunksize is unset/zero, yields the content as a single piece''. The
  pieces are cut from the front, so all but the last one have \<open>chunksize\<close> elements.
\<close>

fun chunk_list :: "nat \<Rightarrow> 'a list \<Rightarrow> 'a list list" where
  "chunk_list n [] = []"
| "chunk_list n (x # xs) = take n (x # xs) # chunk_list n (drop (n - 1) xs)"

definition chunk :: "'a list \<Rightarrow> nat option \<Rightarrow> 'a list list" where
  "chunk xs chunksize =
    (case chunksize of
       None \<Rightarrow> [xs]
     | Some n \<Rightarrow> if n = 0 then [xs] else chunk_list n xs)"

text \<open>
  The content to write is text, a list of elements, or a byte string, and so is each
  of its pieces.
\<close>

datatype wcontent = Text unicode | Items "elem list" | Bytes string

fun chunk_content :: "wcontent \<Rightarrow> nat option \<Rightarrow> wcontent list" where
  "chunk_content (Text u) chunksize = map Text (chunk u chunksize)"
| "chunk_content (Items es) chunksize = map Items (chunk es chunksize)"
| "chunk_content (Bytes s) chunksize = map Bytes (chunk s chunksize)"

fun len :: "wcontent \<Rightarrow> nat" where
  "len (Text u) = length u"
| "len (Items es) = length es"
| "len (Bytes s) = length s"

text \<open>
  The three branches of the loop body: text is encoded with \<open>ENCODING\<close>, a list (it has
  \<open>sort\<close>) goes through \<open>ft.byte\<close>, anything else is written as it is.
\<close>

fun encoded_piece :: "codecs \<Rightarrow> wcontent \<Rightarrow> pyerr + string" where
  "encoded_piece cd (Text u) = cd_encode cd (PyStr (cd_ENCODING cd)) u"
| "encoded_piece cd (Items es) = Inr (byte es)"
| "encoded_piece cd (Bytes s) = Inr s"

text \<open>
  The keyword argument \<open>chunksize\<close>: absent or \<open>None\<close>, or a natural number.
\<close>

definition kwargs_chunksize :: "(string \<rightharpoonup> pyval) \<Rightarrow> nat option" where
  "kwargs_chunksize kwargs =
    (case kwargs ''chunksize'' of
       Some (PyInt n) \<Rightarrow> if n \<ge> 0 then Some (nat n) else None
     | _ \<Rightarrow> None)"

text \<open>\<open>chunksize or len(c)\<close>.\<close>

definition chunksize_or_len :: "nat option \<Rightarrow> wcontent \<Rightarrow> nat" where
  "chunksize_or_len chunksize c =
    (case chunksize of None \<Rightarrow> len c | Some n \<Rightarrow> if n \<noteq> 0 then n else len c)"

text \<open>
  The loop of \<open>_write\<close> over the pieces: each piece is encoded and written to the file,
  and \<open>progress\<close> grows by \<open>chunksize or len(c)\<close>. The progress bar, printed when \<open>length\<close>
  is given, touches neither the file nor \<open>progress\<close> and is left out.
\<close>

fun write_loop ::
  "codecs \<Rightarrow> nat option \<Rightarrow> pyfile \<Rightarrow> nat \<Rightarrow> wcontent list \<Rightarrow> (pyerr + nat) \<times> pyfile"
where
  "write_loop cd chunksize f progress [] = (Inr progress, f)"
| "write_loop cd chunksize f progress (c # cs) =
    (case encoded_piece cd c of
       Inl e \<Rightarrow> (Inl e, f)
     | Inr encoded \<Rightarrow>
         write_loop cd chunksize (file_write f encoded)
           (progress + chunksize_or_len chunksize c) cs)"

text \<open>
  \<open>_write(f, content, **kwargs)\<close> as a reader: \<open>read_any\<close> passes the content as the one
  positional argument. It yields \<open>progress\<close> once, after the loop.
\<close>

definition write_impl ::
  "codecs \<Rightarrow> pyfile \<Rightarrow> wcontent list \<Rightarrow> (string \<rightharpoonup> pyval) \<Rightarrow> nat gen \<times> pyfile"
where
  "write_impl cd f args kwargs =
    (case args of
       [data] \<Rightarrow>
         (let chunksize = kwargs_chunksize kwargs in
          case write_loop cd chunksize f 0 (chunk_content data chunksize) of
            (Inl e, f1) \<Rightarrow> (([], Some e), f1)
          | (Inr progress, f1) \<Rightarrow> (([progress], None), f1))
     | _ \<Rightarrow> (([], Some (TypeError ''_write() takes exactly 2 arguments'')), f))"

text \<open>\<open>generator.next()\<close>: the first value yielded, else the exception that ended it.\<close>

definition gen_next :: "'a gen \<Rightarrow> pyerr + 'a" where
  "gen_next g =
    (case fst g of
       x # xs \<Rightarrow> Inr x
     | [] \<Rightarrow> (case snd g of None \<Rightarrow> Inl StopIteration | Some e \<Rightarrow> Inl e))"

text \<open>
  \<open>write(filepath, content, mode, **kwargs)\<close> is
  \<open>read_any(filepath, _write, mode, *[content], **kwargs).next()\<close>; the result comes
  with the destination file as the call left it. The function is \<open>io_write\<close> here,
  \<open>write\<close> being a command of Isabelle.
\<close>

definition io_write ::
  "codecs \<Rightarrow> 's detector \<Rightarrow> (string \<Rightarrow> string \<Rightarrow> pyerr + pyfile) \<Rightarrow> source \<Rightarrow> wcontent
    \<Rightarrow> string \<Rightarrow> (string \<rightharpoonup> pyval) \<Rightarrow> (pyerr + nat) \<times> pyfile option"
where
  "io_write cd det open_file filepath data mode kwargs =
    (let (g, f) = read_any cd det open_file filepath (write_impl cd) mode [data] kwargs
     in (gen_next g, f))"

text \<open>An instance of the file system for the examples: no path can be opened.\<close>

definition no_files :: "string \<Rightarrow> string \<Rightarrow> pyerr + pyfile" where
  "no_files path mode = Inl (OtherError ''No such file or directory'')"

section \<open>io.read_geojson\<close>

text \<open>JSON values as the streaming parser hands them over; an object is its items.\<close>

datatype json =
    JNull
  | JBool bool
  | JNum rat
  | JStr string
  | JArr "json list"
  | JObj "(string \<times> json) list"

fun json_truthy :: "json \<Rightarrow> bool" where
  "json_truthy JNull = False"
| "json_truthy (JBool b) = b"
| "json_truthy (JNum x) = (x \<noteq> 0)"
| "json_truthy (JStr s) = (s \<noteq> [])"
| "json_truthy (JArr xs) = (xs \<noteq> [])"
| "json_truthy (JObj kvs) = (kvs \<noteq> [])"

text \<open>\<open>d.get(key)\<close> on a dictionary: the value, or \<open>None\<close>.\<close>

definition dict_get :: "(string \<times> json) list \<Rightarrow> string \<Rightarrow> json" where
  "dict_get d k = (case map_of d k of None \<Rightarrow> JNull | Some v \<Rightarrow> v)"

text \<open>
  Modelled from the spec: \<open>process.merge\<close>, which is not among the sources. It
  ``combines a sequence of key-value mappings into one, applying later mappings over
  earlier ones on key conflict''.
\<close>

definition merge :: "(string \<rightharpoonup> json) list \<Rightarrow> (string \<rightharpoonup> json)" where
  "merge mappings = foldl (++) Map.empty mappings"

text \<open>A JSON value used as a mapping: only an object is one.\<close>

fun as_mapping :: "json \<Rightarrow> pyerr + (string \<rightharpoonup> json)" where
  "as_mapping (JObj kvs) = Inr (map_of kvs)"
| "as_mapping v = Inl (TypeError ''not a mapping'')"

text \<open>
  The body of the loop over the features: \<open>feature.get\<close> needs a dictionary,
  \<open>feature['geometry']\<close> raises \<open>KeyError\<close> without the key, and the record is the merge
  of the id, the properties (an empty dictionary if they are missing or false) and the
  geometry.
\<close>

definition feature_record :: "json \<Rightarrow> pyerr + (string \<rightharpoonup> json)" where
  "feature_record feature =
    (case feature of
       JObj kvs \<Rightarrow>
         (let id_dict = [''id'' \<mapsto> dict_get kvs ''id''];
              properties = dict_get kvs ''properties'';
              record = (if json_truthy properties then properties else JObj [])
          in case map_of kvs ''geometry'' of
               None \<Rightarrow> Inl (KeyError ''geometry'')
             | Some geometry \<Rightarrow>
                (case as_mapping record of
                   Inl e \<Rightarrow> Inl e
                 | Inr r \<Rightarrow>
                    (case as_mapping geometry of
                       Inl e \<Rightarrow> Inl e
                     | Inr g \<Rightarrow> Inr (merge [id_dict, r, g]))))
     | _ \<Rightarrow> Inl (AttributeError ''get''))"

text \<open>
  The loop \<open>for feature in features\<close>: the features the parser yields, and the
  exception that ends its generator, if one does.
\<close>

fun feature_records :: "json list \<Rightarrow> pyerr option \<Rightarrow> (string \<rightharpoonup> json) gen" where
  "feature_records [] stop = ([], stop)"
| "feature_records (feature # features) stop =
    (case feature_record feature of
       Inl e \<Rightarrow> ([], Some e)
     | Inr r \<Rightarrow> yield r (feature_records features stop))"

text \<open>
  The streaming JSON parser (\<open>ijson.items\<close>) is outside the repository: it is the
  parameter \<open>items\<close>. Calling it with the file and a path either raises at once or
  returns a generator, modelled by the values it yields, the exception that ends it (if
  any) and the file as the parser leaves it.

  The reader of \<open>read_geojson\<close>: only the call \<open>items(f, 'features.item')\<close> stands in the
  \<open>try\<close>, and only a \<open>KeyError\<close> raised by that call becomes the \<open>TypeError\<close>; the loop is
  in the \<open>else\<close> branch.
\<close>

definition geojson_reader ::
  "(pyfile \<Rightarrow> string \<Rightarrow> pyerr + (json gen \<times> pyfile)) \<Rightarrow> pyfile \<Rightarrow> unit list
    \<Rightarrow> (string \<rightharpoonup> pyval) \<Rightarrow> (string \<rightharpoonup> json) gen \<times> pyfile"
where
  "geojson_reader items f args kwargs =
    (case items f ''features.item'' of
       Inl (KeyError k) \<Rightarrow>
         (([], Some (TypeError ''Only GeoJSON with features are supported.'')), f)
     | Inl e \<Rightarrow> (([], Some e), f)
     | Inr (features, f1) \<Rightarrow> (feature_records (fst features) (snd features), f1))"

definition read_geojson ::
  "codecs \<Rightarrow> 's detector \<Rightarrow> (string \<Rightarrow> string \<Rightarrow> pyerr + pyfile)
    \<Rightarrow> (pyfile \<Rightarrow> string \<Rightarrow> pyerr + (json gen \<times> pyfile)) \<Rightarrow> source \<Rightarrow> string
    \<Rightarrow> (string \<rightharpoonup> json) gen \<times> pyfile option"
where
  "read_geojson cd det open_file items filepath mode =
    read_any cd det open_file filepath (geojson_reader items) mode [] Map.empty"

text \<open>
  Instances of the parser for the examples. A parser that works as a generator does
  nothing when it is called; it reads the file when the generator is run, and under a
  path that the document does not have it finds no value. The other instance raises
  \<open>KeyError\<close> at the call.
\<close>

definition items_lazy_nothing :: "pyfile \<Rightarrow> string \<Rightarrow> pyerr + (json gen \<times> pyfile)" where
  "items_lazy_nothing f path = Inr (([], None), snd (file_read f))"

definition items_key_error :: "pyfile \<Rightarrow> string \<Rightarrow> pyerr + (json gen \<times> pyfile)" where
  "items_key_error f path = Inl (KeyError ''features'')"

text \<open>The document \<open>{"type": "FeatureCollection"}\<close>, which has no \<open>features\<close>.\<close>

definition geojson_without_features :: pyfile where
  "geojson_without_features =
    \<lparr>file_bytes = ''{'' @ [CHR 0x22] @ ''type'' @ [CHR 0x22] @ '': '' @ [CHR 0x22]
                   @ ''FeatureCollection'' @ [CHR 0x22] @ ''}'',
     file_pos = 0\<rparr>"

section \<open>io.sanitize_sheet\<close>

text \<open>
  A cell of an \<open>xlrd\<close> sheet: its type code (\<open>row_types\<close>) and its value (\<open>row_values\<close>).
  \<open>xlrd\<close> gives a date cell and a number cell a float, a boolean cell and an error cell
  an integer, and the other cells text.
\<close>

datatype xl_cell =
    Empty_cell
  | Text_cell string
  | Number_cell rat
  | Date_cell rat
  | Boolean_cell int
  | Error_cell int
  | Blank_cell

definition XL_CELL_EMPTY :: nat where "XL_CELL_EMPTY = 0"
definition XL_CELL_TEXT :: nat where "XL_CELL_TEXT = 1"
definition XL_CELL_NUMBER :: nat where "XL_CELL_NUMBER = 2"
definition XL_CELL_DATE :: nat where "XL_CELL_DATE = 3"
definition XL_CELL_BOOLEAN :: nat where "XL_CELL_BOOLEAN = 4"
definition XL_CELL_ERROR :: nat where "XL_CELL_ERROR = 5"
definition XL_CELL_BLANK :: nat where "XL_CELL_BLANK = 6"

fun cell_type :: "xl_cell \<Rightarrow> nat" where
  "cell_type Empty_cell = XL_CELL_EMPTY"
| "cell_type (Text_cell s) = XL_CELL_TEXT"
| "cell_type (Number_cell x) = XL_CELL_NUMBER"
| "cell_type (Date_cell x) = XL_CELL_DATE"
| "cell_type (Boolean_cell b) = XL_CELL_BOOLEAN"
| "cell_type (Error_cell c) = XL_CELL_ERROR"
| "cell_type Blank_cell = XL_CELL_BLANK"

fun cell_value :: "xl_cell \<Rightarrow> pyval" where
  "cell_value Empty_cell = PyStr []"
| "cell_value (Text_cell s) = PyStr s"
| "cell_value (Number_cell x) = PyFloat x"
| "cell_value (Date_cell x) = PyFloat x"
| "cell_value (Boolean_cell b) = PyInt b"
| "cell_value (Error_cell c) = PyInt c"
| "cell_value Blank_cell = PyStr []"

text \<open>
  What the function takes from \<open>xlrd\<close> and \<open>datetime\<close>, as parameters: the conversion of a
  serial number to a datetime (\<open>xl2dt\<close>) and to a tuple of six numbers
  (\<open>xldate_as_tuple\<close>), both with the workbook's date mode, \<open>strftime\<close> of a date or time
  object with a format, \<open>unicode\<close> of a value, and the table \<open>error_text_from_code\<close>.
\<close>

record xlrd_api =
  xl2dt :: "pyval \<Rightarrow> nat \<Rightarrow> pyerr + pyval"
  xldate_as_tuple :: "pyval \<Rightarrow> nat \<Rightarrow> pyerr + nat list"
  strftime :: "pyval \<Rightarrow> pyval \<Rightarrow> pyerr + string"
  unicode_of :: "pyval \<Rightarrow> string"
  error_text_from_code :: "int \<rightharpoonup> string"

text \<open>\<open>kwargs.get(key, default)\<close>.\<close>

definition kwargs_get :: "(string \<rightharpoonup> pyval) \<Rightarrow> string \<Rightarrow> pyval \<Rightarrow> pyval" where
  "kwargs_get kwargs key fallback = (case kwargs key of None \<Rightarrow> fallback | Some v \<Rightarrow> v)"

text \<open>
  The three format strings. All three are read from the keyword argument
  \<open>date_format\<close>, with different defaults.
\<close>

definition date_format :: "(string \<rightharpoonup> pyval) \<Rightarrow> pyval" where
  "date_format kwargs = kwargs_get kwargs ''date_format'' (PyStr ''%Y-%m-%d'')"

definition dt_format :: "(string \<rightharpoonup> pyval) \<Rightarrow> pyval" where
  "dt_format kwargs = kwargs_get kwargs ''date_format'' (PyStr ''%Y-%m-%d %H:%M:%S'')"

definition time_format :: "(string \<rightharpoonup> pyval) \<Rightarrow> pyval" where
  "time_format kwargs = kwargs_get kwargs ''date_format'' (PyStr ''%H:%M:%S'')"

text \<open>
  \<open>time_func\<close>: the last three numbers of \<open>xldate_as_tuple(value, mode)\<close> make a \<open>time\<close>,
  which is formatted with the time format.
\<close>

definition time_func :: "xlrd_api \<Rightarrow> nat \<Rightarrow> (string \<rightharpoonup> pyval) \<Rightarrow> pyval \<Rightarrow> pyerr + pyval" where
  "time_func api mode kwargs v =
    (case xldate_as_tuple api v mode of
       Inl e \<Rightarrow> Inl e
     | Inr tuple \<Rightarrow>
        (case drop 3 tuple of
           [h, m, s] \<Rightarrow>
             (case strftime api (PyTime \<lparr>hour = h, minute = m, second = s, microsecond = 0\<rparr>)
                     (time_format kwargs) of
                Inl e \<Rightarrow> Inl e
              | Inr text \<Rightarrow> Inr (PyStr text))
         | _ \<Rightarrow> Inl (TypeError ''time() arguments'')))"

definition format_datetime :: "xlrd_api \<Rightarrow> nat \<Rightarrow> pyval \<Rightarrow> pyval \<Rightarrow> pyerr + pyval" where
  "format_datetime api mode fmt v =
    (case xl2dt api v mode of
       Inl e \<Rightarrow> Inl e
     | Inr d \<Rightarrow> (case strftime api d fmt of Inl e \<Rightarrow> Inl e | Inr text \<Rightarrow> Inr (PyStr text)))"

text \<open>
  The keys of the dictionary \<open>switch\<close> are type codes and the two strings \<open>datetime\<close> and
  \<open>time\<close>.
\<close>

datatype switch_key = Code nat | Name string

definition sheet_switch ::
  "xlrd_api \<Rightarrow> nat \<Rightarrow> (string \<rightharpoonup> pyval) \<Rightarrow> (switch_key \<times> (pyval \<Rightarrow> pyerr + pyval)) list"
where
  "sheet_switch api mode kwargs =
    [(Code XL_CELL_DATE, format_datetime api mode (date_format kwargs)),
     (Name ''datetime'', format_datetime api mode (dt_format kwargs)),
     (Name ''time'', time_func api mode kwargs),
     (Code XL_CELL_EMPTY, \<lambda>v. Inr (PyStr [])),
     (Code XL_CELL_NUMBER, \<lambda>v. Inr (PyStr (unicode_of api v))),
     (Code XL_CELL_BOOLEAN, \<lambda>v. Inr (PyStr (if truthy v then ''True'' else ''False''))),
     (Code XL_CELL_ERROR,
        \<lambda>v. case v of
               PyInt c \<Rightarrow>
                 (case error_text_from_code api c of
                    None \<Rightarrow> Inl (KeyError (unicode_of api v))
                  | Some text \<Rightarrow> Inr (PyStr text))
             | _ \<Rightarrow> Inl (KeyError (unicode_of api v)))]"

text \<open>\<open>value < 1\<close> on the number of a cell.\<close>

fun less_than_one :: "pyval \<Rightarrow> bool" where
  "less_than_one (PyFloat x) = (x < 1)"
| "less_than_one (PyInt i) = (i < 1)"
| "less_than_one v = False"

text \<open>
  \<open>value.is_integer\<close> names the method of the float and does not call it: the
  condition tests the truth value of a bound method, which is true for every float.
\<close>

definition is_integer_attribute :: "pyval \<Rightarrow> bool" where
  "is_integer_attribute v = True"

text \<open>The body of the inner loop: the type is reclassified and the switch applied.\<close>

definition reclassify :: "nat \<Rightarrow> pyval \<Rightarrow> switch_key" where
  "reclassify ty v =
    (if ty = XL_CELL_DATE \<and> less_than_one v then Name ''time''
     else if ty = XL_CELL_DATE \<and> \<not> is_integer_attribute v then Name ''datetime''
     else Code ty)"

definition sanitize_cell ::
  "xlrd_api \<Rightarrow> nat \<Rightarrow> (string \<rightharpoonup> pyval) \<Rightarrow> xl_cell \<Rightarrow> pyerr + pyval"
where
  "sanitize_cell api mode kwargs c =
    (case map_of (sheet_switch api mode kwargs) (reclassify (cell_type c) (cell_value c)) of
       None \<Rightarrow> Inr (cell_value c)
     | Some func \<Rightarrow> func (cell_value c))"

text \<open>The two loops, over the rows with their numbers and over the cells of a row.\<close>

fun sanitize_row ::
  "xlrd_api \<Rightarrow> nat \<Rightarrow> (string \<rightharpoonup> pyval) \<Rightarrow> nat \<Rightarrow> xl_cell list \<Rightarrow> (nat \<times> pyval) gen"
where
  "sanitize_row api mode kwargs i [] = ([], None)"
| "sanitize_row api mode kwargs i (c # cs) =
    (case sanitize_cell api mode kwargs c of
       Inl e \<Rightarrow> ([], Some e)
     | Inr v \<Rightarrow> yield (i, v) (sanitize_row api mode kwargs i cs))"

fun sanitize_rows ::
  "xlrd_api \<Rightarrow> nat \<Rightarrow> nat \<Rightarrow> (string \<rightharpoonup> pyval) \<Rightarrow> nat \<Rightarrow> xl_cell list list \<Rightarrow> (nat \<times> pyval) gen"
where
  "sanitize_rows api mode first_col kwargs i [] = ([], None)"
| "sanitize_rows api mode first_col kwargs i (row # rows) =
    (case sanitize_row api mode kwargs i (drop first_col row) of
       (out, Some e) \<Rightarrow> (out, Some e)
     | (out, None) \<Rightarrow>
         (let rest = sanitize_rows api mode first_col kwargs (Suc i) rows
          in (out @ fst rest, snd rest)))"

definition sanitize_sheet ::
  "xlrd_api \<Rightarrow> xl_cell list list \<Rightarrow> nat \<Rightarrow> nat \<Rightarrow> (string \<rightharpoonup> pyval) \<Rightarrow> (nat \<times> pyval) gen"
where
  "sanitize_sheet api sheet mode first_col kwargs = sanitize_rows api mode first_col kwargs 0 sheet"

text \<open>
  An instance of the parameters for the examples: the datetime of a serial number is
  left symbolic (the float itself), and \<open>strftime\<close> returns its format.
\<close>

definition example_api :: xlrd_api where
  "example_api =
    \<lparr>xl2dt = (\<lambda>v mode. Inr v),
     xldate_as_tuple = (\<lambda>v mode. Inr [0, 0, 0, 0, 0, 0]),
     strftime = (\<lambda>d fmt. case fmt of PyStr s \<Rightarrow> Inr s | _ \<Rightarrow> Inl (TypeError ''format'')),
     unicode_of = (\<lambda>v. ''?''),
     error_text_from_code = Map.empty\<rparr>"

section \<open>Properties of get_reader\<close>

lemma switch_keys:
  "fst ` set switch =
    {''csv'', ''xls'', ''xlsx'', ''mdb'', ''json'', ''geojson'', ''geojson.json'',
     ''sqlite'', ''dbf'', ''tsv''}"
  by (simp add: switch_def)

lemma get_reader_unknown:
  assumes "extension \<notin> fst ` set switch"
  shows "get_reader extension = Inl (KeyError extension)"
proof -
  from assms have "map_of switch extension = None"
    by (simp add: map_of_eq_None_iff)
  then show ?thesis
    by (simp add: get_reader_def get_reader_try_def dict_getitem_def)
qed

lemma get_reader_known:
  assumes "(extension, name) \<in> set switch"
  shows "\<exists>r. module_getattr name = Inr r \<and> get_reader extension = Inr r"
proof -
  have d: "distinct (map fst switch)"
    by (simp add: switch_def)
  from assms d have m: "map_of switch extension = Some name"
    by simp
  from assms obtain r where r: "module_getattr name = Inr r"
    by (auto simp add: switch_def module_getattr_def)
  with m have "get_reader extension = Inr r"
    by (simp add: get_reader_def get_reader_try_def dict_getitem_def)
  with r show ?thesis by blast
qed

text \<open>
  Claim C2. An extension that is not a key of the fixed extension-to-reader table makes
  \<open>get_reader\<close> fail with the lookup error \<open>KeyError\<close> (the not-found error; the empty
  string is such an extension); an extension of the table returns the reader function
  the table names for it, \<open>csv\<close> giving \<open>read_csv\<close> and \<open>xls\<close> giving \<open>read_xls\<close>.
\<close>

theorem get_reader_lookup:
  "(extension \<notin> fst ` set switch \<longrightarrow> get_reader extension = Inl (KeyError extension))
   \<and> ((extension, name) \<in> set switch \<longrightarrow>
        (\<exists>r. module_getattr name = Inr r \<and> get_reader extension = Inr r))
   \<and> get_reader '''' = Inl (KeyError '''')
   \<and> get_reader ''csv'' = Inr read_csv
   \<and> get_reader ''xls'' = Inr read_xls"
proof -
  have a: "get_reader '''' = Inl (KeyError '''')"
    by (rule get_reader_unknown) (simp add: switch_keys)
  have b: "get_reader ''csv'' = Inr read_csv"
    by (simp add: get_reader_def get_reader_try_def dict_getitem_def switch_def
        module_getattr_def)
  have c: "get_reader ''xls'' = Inr read_xls"
    by (simp add: get_reader_def get_reader_try_def dict_getitem_def switch_def
        module_getattr_def)
  from a b c show ?thesis
    using get_reader_unknown get_reader_known by blast
qed

theorem get_reader_lookup_witness:
  "''pdf'' \<notin> fst ` set switch \<and> get_reader ''pdf'' = Inl (KeyError ''pdf'')
   \<and> (''xlsx'', ''read_xls'') \<in> set switch \<and> get_reader ''xlsx'' = Inr read_xls"
proof -
  have h1: "''pdf'' \<notin> fst ` set switch" by (simp add: switch_keys)
  have h2: "(''xlsx'', ''read_xls'') \<in> set switch" by (simp add: switch_def)
  have m: "module_getattr ''read_xls'' = Inr read_xls" by (simp add: module_getattr_def)
  from get_reader_lookup [of "''pdf''" "''read_xls''"] h1
  have r1: "get_reader ''pdf'' = Inl (KeyError ''pdf'')" by blast
  from get_reader_lookup [of "''xlsx''" "''read_xls''"] h2 m
  have r2: "get_reader ''xlsx'' = Inr read_xls" by auto
  from h1 h2 r1 r2 show ?thesis by blast
qed

section \<open>Properties of IterStringIO\<close>

lemma deque_append_keep:
  "deque_append m (drop (length ys - m) ys) x = drop (length (ys @ [x]) - m) (ys @ [x])"
  by (cases "length ys < m") (simp_all add: deque_append_def Suc_diff_le)

lemma deque_extend_keep:
  "deque_extend m (drop (length d - m) d) xs = drop (length (d @ xs) - m) (d @ xs)"
proof (induction xs arbitrary: d)
  case Nil
  then show ?case by (simp add: deque_extend_def)
next
  case (Cons x xs)
  have "deque_extend m (drop (length d - m) d) (x # xs)
      = deque_extend m (deque_append m (drop (length d - m) d) x) xs"
    by (simp add: deque_extend_def)
  also have "\<dots> = deque_extend m (drop (length (d @ [x]) - m) (d @ [x])) xs"
    by (simp only: deque_append_keep)
  also have "\<dots> = drop (length ((d @ [x]) @ xs) - m) ((d @ [x]) @ xs)"
    by (rule Cons.IH)
  finally show ?case by simp
qed

text \<open>What \<open>_read\<close> leaves in a deque that respects its capacity.\<close>

lemma read_elems_deque:
  assumes "length (last_deque self) \<le> maxlen self"
  shows "last_deque (snd (IterStringIO_read_elems self taken)) =
    drop (length (last_deque self @ map EInt (byte taken) @ [EStr [CHR 0x0A]]) - maxlen self)
      (last_deque self @ map EInt (byte taken) @ [EStr [CHR 0x0A]])"
proof -
  let ?m = "maxlen self" and ?d = "last_deque self" and ?b = "map EInt (byte taken)"
  from assms have d: "drop (length ?d - ?m) ?d = ?d" by simp
  have "deque_extend ?m ?d ?b = drop (length (?d @ ?b) - ?m) (?d @ ?b)"
    using deque_extend_keep [of ?m ?d ?b] d by simp
  then have "deque_append ?m (deque_extend ?m ?d ?b) (EStr [CHR 0x0A])
      = drop (length ((?d @ ?b) @ [EStr [CHR 0x0A]]) - ?m) ((?d @ ?b) @ [EStr [CHR 0x0A]])"
    by (simp only: deque_append_keep)
  then show ?thesis
    by (simp add: IterStringIO_read_elems_def Let_def)
qed

lemma read_elems_pos:
  "pos (snd (IterStringIO_read_elems self taken)) = pos self + length (fst (IterStringIO_read_elems self taken))"
  by (simp add: IterStringIO_read_elems_def Let_def)

lemma read_elems_fst: "fst (IterStringIO_read_elems self taken) = byte taken"
  by (simp add: IterStringIO_read_elems_def Let_def)

lemma read_elems_other:
  "iter (snd (IterStringIO_read_elems self taken)) = iter self"
  "maxlen (snd (IterStringIO_read_elems self taken)) = maxlen self"
  by (simp_all add: IterStringIO_read_elems_def Let_def)

text \<open>
  Claim C9. \<open>read(0)\<close> does what \<open>read()\<close> does: it returns the bytes of all the pending
  elements and leaves no pending input; with pending input whose elements are not
  empty, the result is not empty.
\<close>

theorem read_zero_reads_all:
  "IterStringIO_read self (Some 0) = IterStringIO_read self None
   \<and> fst (IterStringIO_read self (Some 0)) = byte (iter self)
   \<and> iter (snd (IterStringIO_read self (Some 0))) = []
   \<and> (iter self \<noteq> [] \<and> EStr [] \<notin> set (iter self) \<longrightarrow> fst (IterStringIO_read self (Some 0)) \<noteq> [])"
proof -
  have eq: "IterStringIO_read self (Some 0) = IterStringIO_read self None"
    by (simp add: IterStringIO_read_def islice_if_def truthy_limit_def)
  have f: "fst (IterStringIO_read self (Some 0)) = byte (iter self)"
    by (simp add: IterStringIO_read_def islice_if_def truthy_limit_def read_elems_fst)
  have r: "iter (snd (IterStringIO_read self (Some 0))) = []"
    by (simp add: IterStringIO_read_def islice_if_def truthy_limit_def read_elems_other)
  have n: "byte (iter self) \<noteq> []" if "iter self \<noteq> []" "EStr [] \<notin> set (iter self)"
  proof -
    from that obtain e es where es: "iter self = e # es" by (cases "iter self") auto
    with that have "elem_bytes e \<noteq> []" by (cases e) auto
    with es show ?thesis by (simp add: byte_def)
  qed
  from eq f r n show ?thesis by simp
qed

theorem read_zero_reads_all_witness:
  "iter (IterStringIO_init (\<lambda>c. [c]) [''Hello'', '' World''] 4096) \<noteq> []
   \<and> EStr [] \<notin> set (iter (IterStringIO_init (\<lambda>c. [c]) [''Hello'', '' World''] 4096))
   \<and> fst (IterStringIO_read (IterStringIO_init (\<lambda>c. [c]) [''Hello'', '' World''] 4096) (Some 0))
       = ''Hello World''
   \<and> fst (IterStringIO_read (IterStringIO_init (\<lambda>c. [c]) [''Hello'', '' World''] 4096) (Some 0))
       \<noteq> []"
proof -
  let ?s = "IterStringIO_init (\<lambda>c. [c]) [''Hello'', '' World''] 4096"
  have i: "iter ?s = map (\<lambda>c. EStr [c]) ''Hello World''"
    by (simp add: IterStringIO_init_def encode_all_def chain_def)
  have b: "byte (iter ?s) = ''Hello World''"
    by (simp add: i byte_def)
  have h: "iter ?s \<noteq> []" "EStr [] \<notin> set (iter ?s)"
    by (simp_all add: i)
  note t = read_zero_reads_all [of ?s]
  from t have "fst (IterStringIO_read ?s (Some 0)) = byte (iter ?s)" by blast
  with b have r: "fst (IterStringIO_read ?s (Some 0)) = ''Hello World''" by (simp only:)
  from t h have "fst (IterStringIO_read ?s (Some 0)) \<noteq> []" by blast
  with r h show ?thesis by blast
qed

lemma read_unfold:
  "IterStringIO_read self n =
    IterStringIO_read_elems (self\<lparr>iter := drop (length (islice_if (iter self) n)) (iter self)\<rparr>)
      (islice_if (iter self) n)"
  by (simp add: IterStringIO_read_def Let_def)

lemma readline_returns:
  assumes "IterStringIO_readline self n = (Inr b, self')"
  shows "\<exists>self0 taken. last_deque self0 = last_deque self \<and> maxlen self0 = maxlen self
      \<and> pos self0 = pos self \<and> IterStringIO_read_elems self0 taken = (b, self')"
proof (cases "dropWhile is_newline (iter self) = []")
  case True
  with assms show ?thesis by (simp add: IterStringIO_readline_def)
next
  case False
  define ys where "ys = dropWhile is_newline (iter self)"
  define g where "g = takeWhile (\<lambda>s. \<not> is_newline s) ys"
  define rest where "rest = (if truthy_limit n \<and> the n \<le> length g then drop (length (islice_if g n)) ys
                   else drop 1 (dropWhile (\<lambda>s. \<not> is_newline s) ys))"
  from False have "IterStringIO_readline self n =
      (case IterStringIO_read_elems (self\<lparr>iter := rest\<rparr>) (islice_if g n) of
         (b, self1) \<Rightarrow> (Inr b, self1))"
    unfolding IterStringIO_readline_def Let_def ys_def g_def rest_def by (simp only: if_False)
  with assms
  have "IterStringIO_read_elems (self\<lparr>iter := rest\<rparr>) (islice_if g n) = (b, self')"
    by (cases "IterStringIO_read_elems (self\<lparr>iter := rest\<rparr>) (islice_if g n)") simp
  then show ?thesis
    by (intro exI [of _ "self\<lparr>iter := rest\<rparr>"] exI [of _ "islice_if g n"]) simp
qed

lemma read_elems_effect:
  assumes "length (last_deque self0) \<le> maxlen self0"
    and "IterStringIO_read_elems self0 taken = (b, self')"
  shows "pos self' = pos self0 + length b
    \<and> last_deque self' =
        drop (length (last_deque self0 @ map EInt b @ [EStr [CHR 0x0A]]) - maxlen self0)
          (last_deque self0 @ map EInt b @ [EStr [CHR 0x0A]])"
proof -
  from assms(2) have b: "b = byte taken" and s: "self' = snd (IterStringIO_read_elems self0 taken)"
    using read_elems_fst [of self0 taken] by simp_all
  from assms(2) have "pos self' = pos self0 + length b"
    using read_elems_pos [of self0 taken] by simp
  moreover have "last_deque self' =
        drop (length (last_deque self0 @ map EInt b @ [EStr [CHR 0x0A]]) - maxlen self0)
          (last_deque self0 @ map EInt b @ [EStr [CHR 0x0A]])"
    unfolding b s by (rule read_elems_deque [OF assms(1)])
  ultimately show ?thesis by blast
qed

lemma last_mem_drop:
  assumes "k < length l"
  shows "last l \<in> set (drop k l)"
proof -
  from assms have "drop k l \<noteq> []" by simp
  then have "last (drop k l) \<in> set (drop k l)" by (rule last_in_set)
  with assms show ?thesis by (simp only: last_drop)
qed

lemma deque_gains_newline:
  assumes "0 < m" and "k < length (drop (length (d @ bs @ [x]) - m) (d @ bs @ [x]))"
  shows "x \<in> set (drop k (drop (length (d @ bs @ [x]) - m) (d @ bs @ [x])))"
proof -
  define zs where "zs = d @ bs @ [x]"
  have zs: "zs \<noteq> []" "last zs = x" by (simp_all add: zs_def)
  with assms(1) have "length zs - m < length zs" by (cases zs) auto
  then have "last (drop (length zs - m) zs) = x" using zs(2) by (simp only: last_drop)
  moreover from assms(2) have "last (drop (length zs - m) zs) \<in> set (drop k (drop (length zs - m) zs))"
    unfolding zs_def [symmetric] by (rule last_mem_drop)
  ultimately show ?thesis unfolding zs_def by simp
qed

text \<open>
  Claim C10. When \<open>read\<close> or \<open>readline\<close> returns the bytes \<open>b\<close>, the position that \<open>tell\<close>
  reports has grown by the length of \<open>b\<close>, and the lookback deque (cut to its capacity)
  has gained the bytes of \<open>b\<close> followed by one string \<open>'\n'\<close> that the call appends
  whatever the input was. A later \<open>seek(k)\<close> replays the deque from offset \<open>k\<close> in front
  of the pending input, and with it that appended newline.
\<close>

theorem read_position_and_lookback:
  assumes "length (last_deque self) \<le> maxlen self"
    and "IterStringIO_read self n = (b, self') \<or> IterStringIO_readline self n = (Inr b, self')"
  shows "IterStringIO_tell self' = IterStringIO_tell self + length b
    \<and> last_deque self' =
        drop (length (last_deque self @ map EInt b @ [EStr [CHR 0x0A]]) - maxlen self)
          (last_deque self @ map EInt b @ [EStr [CHR 0x0A]])
    \<and> iter (IterStringIO_seek self' k) = drop k (last_deque self') @ iter self'
    \<and> (0 < maxlen self \<and> k < length (last_deque self') \<longrightarrow>
          EStr [CHR 0x0A] \<in> set (iter (IterStringIO_seek self' k)))"
proof -
  from assms(2) obtain self0 taken where
    s0: "last_deque self0 = last_deque self" "maxlen self0 = maxlen self" "pos self0 = pos self"
    and r: "IterStringIO_read_elems self0 taken = (b, self')"
  proof
    assume a: "IterStringIO_read self n = (b, self')"
    show ?thesis
      by (rule that [of "self\<lparr>iter := drop (length (islice_if (iter self) n)) (iter self)\<rparr>"
            "islice_if (iter self) n"]) (use a in \<open>simp_all add: read_unfold\<close>)
  next
    assume "IterStringIO_readline self n = (Inr b, self')"
    from readline_returns [OF this] show ?thesis using that by blast
  qed
  from assms(1) s0 have "length (last_deque self0) \<le> maxlen self0" by simp
  from read_elems_effect [OF this r] s0
  have p: "pos self' = pos self + length b"
    and l: "last_deque self' =
        drop (length (last_deque self @ map EInt b @ [EStr [CHR 0x0A]]) - maxlen self)
          (last_deque self @ map EInt b @ [EStr [CHR 0x0A]])"
    by simp_all
  have sk: "iter (IterStringIO_seek self' k) = drop k (last_deque self') @ iter self'"
    by (simp add: IterStringIO_seek_def)
  have nl: "EStr [CHR 0x0A] \<in> set (iter (IterStringIO_seek self' k))"
    if "0 < maxlen self" "k < length (last_deque self')"
  proof -
    from that(2) have "k < length (drop (length (last_deque self @ map EInt b @ [EStr [CHR 0x0A]]) - maxlen self)
          (last_deque self @ map EInt b @ [EStr [CHR 0x0A]]))"
      by (simp only: l)
    from deque_gains_newline [OF that(1) this]
    have "EStr [CHR 0x0A] \<in> set (drop k (last_deque self'))" by (simp only: l)
    then show ?thesis by (simp add: sk)
  qed
  from p l sk nl show ?thesis unfolding IterStringIO_tell_def by blast
qed

text \<open>
  The input \<open>ab\<close> holds no newline; after \<open>read()\<close> returned \<open>ab\<close>, \<open>tell\<close> is \<open>2\<close> and
  \<open>seek(0)\<close> replays the two bytes and a newline.
\<close>

theorem read_position_and_lookback_witness:
  "length (last_deque (IterStringIO_init (\<lambda>c. [c]) [''ab''] 4096))
     \<le> maxlen (IterStringIO_init (\<lambda>c. [c]) [''ab''] 4096)
   \<and> fst (IterStringIO_read (IterStringIO_init (\<lambda>c. [c]) [''ab''] 4096) None) = ''ab''
   \<and> EStr [CHR 0x0A] \<notin> set (iter (IterStringIO_init (\<lambda>c. [c]) [''ab''] 4096))
   \<and> IterStringIO_tell (snd (IterStringIO_read (IterStringIO_init (\<lambda>c. [c]) [''ab''] 4096) None)) = 2
   \<and> iter (IterStringIO_seek (snd (IterStringIO_read (IterStringIO_init (\<lambda>c. [c]) [''ab''] 4096) None)) 0)
       = [EInt CHR ''a'', EInt CHR ''b'', EStr [CHR 0x0A]]"
proof -
  let ?s = "IterStringIO_init (\<lambda>c. [c]) [''ab''] 4096"
  let ?r = "IterStringIO_read ?s None"
  have i: "iter ?s = [EStr ''a'', EStr ''b'']" "last_deque ?s = []" "maxlen ?s = 4096" "pos ?s = 0"
    by (simp_all add: IterStringIO_init_def encode_all_def chain_def)
  have h: "length (last_deque ?s) \<le> maxlen ?s" by (simp add: i)
  have b: "fst ?r = ''ab''"
    by (simp add: read_unfold islice_if_def truthy_limit_def read_elems_fst byte_def i)
  have it: "iter (snd ?r) = []"
    by (simp add: read_unfold islice_if_def truthy_limit_def read_elems_other i)
  have e: "?r = (''ab'', snd ?r)" using b by (metis prod.collapse)
  note t = read_position_and_lookback [OF h disjI1 [OF e], of 0]
  from t have "IterStringIO_tell (snd ?r) = IterStringIO_tell ?s + length ''ab''" by blast
  then have p: "IterStringIO_tell (snd ?r) = 2" by (simp add: IterStringIO_tell_def i)
  from t have "last_deque (snd ?r) =
      drop (length (last_deque ?s @ map EInt ''ab'' @ [EStr [CHR 0x0A]]) - maxlen ?s)
          (last_deque ?s @ map EInt ''ab'' @ [EStr [CHR 0x0A]])" by blast
  then have l: "last_deque (snd ?r) = [EInt CHR ''a'', EInt CHR ''b'', EStr [CHR 0x0A]]"
    by (simp add: i)
  from t have "iter (IterStringIO_seek (snd ?r) 0) = drop 0 (last_deque (snd ?r)) @ iter (snd ?r)"
    by blast
  with l it have k: "iter (IterStringIO_seek (snd ?r) 0) = [EInt CHR ''a'', EInt CHR ''b'', EStr [CHR 0x0A]]"
    by simp
  have n: "EStr [CHR 0x0A] \<notin> set (iter ?s)" by (simp add: i)
  from h b n p k show ?thesis by blast
qed

section \<open>Properties of guess_type_by_field\<close>

lemma contains_sublist: "contains sub s \<longleftrightarrow> sublist sub s"
  by (induction s) (auto simp add: sublist_Cons_right)

lemma find_fuzzy_floats:
  "find_fuzzy floats [x] \<longleftrightarrow> (\<exists>target \<in> set floats. sublist target x)"
  by (simp add: find_fuzzy_def list_ex_iff contains_sublist)

text \<open>The label that the rule chain gives to one field name.\<close>

lemma first_guess_field:
  "first_guess type_str field_guess_funcs item item = Inr (Some (item,
     if sublist ''date'' item \<and> sublist ''time'' item then ''datetime''
     else if sublist ''date'' item then ''date''
     else if sublist ''time'' item then ''time''
     else if \<exists>target \<in> set floats. sublist target item then ''float''
     else if sublist ''count'' item then ''int''
     else ''text''))"
  by (simp add: field_guess_funcs_def type_test_def find_fuzzy_floats contains_sublist)

lemma guess_type_by_field_map:
  "guess_type_by_field content = (map (\<lambda>item. (item,
     if sublist ''date'' item \<and> sublist ''time'' item then ''datetime''
     else if sublist ''date'' item then ''date''
     else if sublist ''time'' item then ''time''
     else if \<exists>target \<in> set floats. sublist target item then ''float''
     else if sublist ''count'' item then ''int''
     else ''text'')) content, None)"
  by (induction content) (simp_all only: guess_type_by_field.simps first_guess_field
      sum.case option.case yield_def fst_conv snd_conv list.map)

lemma guess_type_by_field_example:
  "guess_type_by_field [''date'', ''raw_value'', ''date_and_time'', ''length'', ''field''] =
     ([(''date'', ''date''), (''raw_value'', ''float''), (''date_and_time'', ''datetime''),
       (''length'', ''float''), (''field'', ''text'')], None)"
  by (simp add: field_guess_funcs_def type_test_def find_fuzzy_def floats_def yield_def)

text \<open>
  Claim C6. \<open>guess_type_by_field\<close> yields one pair per field name, in input order and
  without raising; the type of a name is \<open>datetime\<close> if it contains both \<open>date\<close> and
  \<open>time\<close>, else \<open>date\<close> if it contains \<open>date\<close>, else \<open>time\<close> if it contains \<open>time\<close>, else
  \<open>float\<close> if one of \<open>value\<close>, \<open>length\<close>, \<open>width\<close>, \<open>days\<close> occurs in it, else \<open>int\<close> if it
  contains \<open>count\<close>, else \<open>text\<close>. The names \<open>date\<close>, \<open>raw_value\<close>, \<open>date_and_time\<close>,
  \<open>length\<close>, \<open>field\<close> get \<open>date\<close>, \<open>float\<close>, \<open>datetime\<close>, \<open>float\<close>, \<open>text\<close>.
\<close>

theorem guess_type_by_field_first_match:
  "guess_type_by_field content = (map (\<lambda>item. (item,
     if sublist ''date'' item \<and> sublist ''time'' item then ''datetime''
     else if sublist ''date'' item then ''date''
     else if sublist ''time'' item then ''time''
     else if \<exists>target \<in> set [''value'', ''length'', ''width'', ''days'']. sublist target item
       then ''float''
     else if sublist ''count'' item then ''int''
     else ''text'')) content, None)
   \<and> map snd (fst (guess_type_by_field
        [''date'', ''raw_value'', ''date_and_time'', ''length'', ''field'']))
      = [''date'', ''float'', ''datetime'', ''float'', ''text'']"
  using guess_type_by_field_map [of content] guess_type_by_field_example
  by (simp only: floats_def list.map fst_conv snd_conv simp_thms)

section \<open>Properties of is_date, is_time, is_datetime\<close>

lemma midnight_isoformat:
  assumes "\<not> truthy (PyTime t)"
  shows "time_isoformat t = NULL_TIME"
proof -
  from assms have "hour t = 0" "minute t = 0" "second t = 0" "microsecond t = 0"
    by simp_all
  then show ?thesis
    by (simp add: time_isoformat_def pad2_def digit_def NULL_TIME_def)
qed

lemma predicates_on_date:
  assumes "try_to_datetime to_datetime content = Inr (PyDate d)"
  shows "is_date to_datetime content = Inr (PyBool (year d \<noteq> NULL_YEAR))"
    and "is_time to_datetime content = Inr (PyBool False)"
    and "is_datetime to_datetime content = Inr (PyBool False)"
  using assms by (simp_all add: is_date_def is_time_def is_datetime_def py_and_def)

lemma predicates_on_time:
  assumes "try_to_datetime to_datetime content = Inr (PyTime t)"
  shows "is_date to_datetime content = Inr (py_and (PyTime t) (PyBool False))"
    and "is_time to_datetime content =
          Inr (py_and (PyTime t) (PyBool (time_isoformat t \<noteq> NULL_TIME)))"
    and "is_datetime to_datetime content =
          Inr (py_and (py_and (PyTime t) (PyBool False)) (py_and (PyTime t) (PyBool False)))"
  using assms by (simp_all add: is_date_def is_time_def is_datetime_def)

lemma predicates_on_datetime:
  assumes "try_to_datetime to_datetime content = Inr (PyDatetime d t)"
  shows "is_date to_datetime content = Inr (PyBool (year d \<noteq> NULL_YEAR))"
    and "is_time to_datetime content = Inr (PyBool (time_isoformat t \<noteq> NULL_TIME))"
    and "is_datetime to_datetime content =
          Inr (py_and (PyBool (year d \<noteq> NULL_YEAR)) (PyBool (time_isoformat t \<noteq> NULL_TIME)))"
  using assms by (simp_all add: is_date_def is_time_def is_datetime_def py_and_def)

lemma only_date:
  assumes "try_to_datetime to_datetime content = Inr converted"
    and "converted = PyDate d \<or> converted = PyDatetime d t \<and> time_isoformat t = NULL_TIME"
    and "year d \<noteq> NULL_YEAR"
  shows "returns_true (is_date to_datetime content) \<and> returns_false (is_time to_datetime content)"
  using assms predicates_on_date [of to_datetime content d]
    predicates_on_datetime [of to_datetime content d t]
  by (auto simp add: returns_true_def returns_false_def)

lemma only_time:
  assumes "try_to_datetime to_datetime content = Inr converted"
    and "converted = PyTime t \<or> converted = PyDatetime d t \<and> year d = NULL_YEAR"
    and "time_isoformat t \<noteq> NULL_TIME"
  shows "returns_false (is_date to_datetime content) \<and> returns_true (is_time to_datetime content)"
proof -
  from assms(3) have tr: "truthy (PyTime t)"
    using midnight_isoformat by blast
  from assms(2) show ?thesis
  proof
    assume "converted = PyTime t"
    with assms(1,3) tr show ?thesis
      using predicates_on_time [of to_datetime content t]
      by (simp add: returns_true_def returns_false_def py_and_def)
  next
    assume "converted = PyDatetime d t \<and> year d = NULL_YEAR"
    with assms(1,3) show ?thesis
      using predicates_on_datetime [of to_datetime content d t]
      by (simp add: returns_true_def returns_false_def)
  qed
qed

lemma date_and_time:
  assumes "try_to_datetime to_datetime content = Inr (PyDatetime d t)"
    and "year d \<noteq> NULL_YEAR" and "time_isoformat t \<noteq> NULL_TIME"
  shows "returns_true (is_date to_datetime content) \<and> returns_true (is_time to_datetime content)
    \<and> returns_true (is_datetime to_datetime content)"
  using assms predicates_on_datetime [of to_datetime content d t]
  by (simp add: returns_true_def py_and_def)

text \<open>
  Claim C7, as stated, fails: the date 9999-12-31 represents only a date, and \<open>is_date\<close>
  is false for it, whether the converter leaves the date as it is or fills it up to a
  datetime; the time 00:00:00 represents only a time of day, and \<open>is_time\<close> is false
  for it.
\<close>

theorem sentinel_values_counterexample:
  "returns_false (is_date to_datetime_reject (PyDate \<lparr>year = 9999, month = 12, day = 31\<rparr>))
   \<and> returns_false (is_date to_datetime_fill (PyDate \<lparr>year = 9999, month = 12, day = 31\<rparr>))
   \<and> returns_false (is_time to_datetime_reject
        (PyTime \<lparr>hour = 0, minute = 0, second = 0, microsecond = 0\<rparr>))"
  by (simp add: returns_false_def is_date_def is_time_def try_to_datetime_def
      to_datetime_reject_def to_datetime_fill_def py_and_def NULL_YEAR_def NULL_TIME_def
      time_isoformat_def pad2_def digit_def)

text \<open>
  Claim C7, amended. The sentinels are the year 9999 and the time \<open>00:00:00\<close>. Let a value
  convert (or, rejected by the converter, stand as it is). If the conversion is a date
  object, or a datetime whose time is the sentinel, and its year is not the sentinel,
  then \<open>is_date\<close> is true and \<open>is_time\<close> is false. If it is a time object, or a datetime
  whose year is the sentinel, and its time is not the sentinel, then \<open>is_date\<close> is false
  and \<open>is_time\<close> is true. If it is a datetime with neither sentinel, then \<open>is_date\<close>,
  \<open>is_time\<close> and \<open>is_datetime\<close> are all true.
\<close>

theorem date_time_predicates_agree:
  assumes "try_to_datetime to_datetime content = Inr converted"
  shows "NULL_YEAR = 9999 \<and> NULL_TIME = ''00:00:00''
    \<and> ((converted = PyDate d \<or> converted = PyDatetime d t \<and> time_isoformat t = NULL_TIME)
          \<and> year d \<noteq> NULL_YEAR \<longrightarrow>
        returns_true (is_date to_datetime content) \<and> returns_false (is_time to_datetime content))
    \<and> ((converted = PyTime t \<or> converted = PyDatetime d t \<and> year d = NULL_YEAR)
          \<and> time_isoformat t \<noteq> NULL_TIME \<longrightarrow>
        returns_false (is_date to_datetime content) \<and> returns_true (is_time to_datetime content))
    \<and> (converted = PyDatetime d t \<and> year d \<noteq> NULL_YEAR \<and> time_isoformat t \<noteq> NULL_TIME \<longrightarrow>
        returns_true (is_date to_datetime content) \<and> returns_true (is_time to_datetime content)
        \<and> returns_true (is_datetime to_datetime content))"
proof -
  have s: "NULL_YEAR = 9999" "NULL_TIME = ''00:00:00''"
    by (simp_all add: NULL_YEAR_def NULL_TIME_def)
  from assms show ?thesis
    using s only_date [of to_datetime content converted d t]
      only_time [of to_datetime content converted t d]
      date_and_time [of to_datetime content d t]
    by blast
qed

text \<open>The date 1982-05-04, the time 02:30 and the datetime 1982-05-04 02:00, used as they are.\<close>

theorem date_time_predicates_agree_witness:
  "try_to_datetime to_datetime_reject (PyDate \<lparr>year = 1982, month = 5, day = 4\<rparr>)
      = Inr (PyDate \<lparr>year = 1982, month = 5, day = 4\<rparr>)
   \<and> returns_true (is_date to_datetime_reject (PyDate \<lparr>year = 1982, month = 5, day = 4\<rparr>))
   \<and> returns_false (is_time to_datetime_reject (PyDate \<lparr>year = 1982, month = 5, day = 4\<rparr>))
   \<and> returns_false (is_date to_datetime_reject
        (PyTime \<lparr>hour = 2, minute = 30, second = 0, microsecond = 0\<rparr>))
   \<and> returns_true (is_time to_datetime_reject
        (PyTime \<lparr>hour = 2, minute = 30, second = 0, microsecond = 0\<rparr>))
   \<and> returns_true (is_datetime to_datetime_reject
        (PyDatetime \<lparr>year = 1982, month = 5, day = 4\<rparr>
           \<lparr>hour = 2, minute = 0, second = 0, microsecond = 0\<rparr>))"
proof -
  let ?d = "\<lparr>year = 1982, month = 5, day = 4\<rparr>"
  let ?t = "\<lparr>hour = 2, minute = 30, second = 0, microsecond = 0\<rparr>"
  let ?t2 = "\<lparr>hour = 2, minute = 0, second = 0, microsecond = 0\<rparr>"
  have c: "try_to_datetime to_datetime_reject v = Inr v" for v
    by (simp add: try_to_datetime_def to_datetime_reject_def)
  have y: "year ?d \<noteq> NULL_YEAR" by (simp add: NULL_YEAR_def)
  have i: "time_isoformat ?t \<noteq> NULL_TIME" "time_isoformat ?t2 \<noteq> NULL_TIME"
    by (simp_all add: time_isoformat_def pad2_def digit_def NULL_TIME_def)
  from date_time_predicates_agree [OF c, of "PyDate ?d" ?d ?t] y
  have a: "returns_true (is_date to_datetime_reject (PyDate ?d))
      \<and> returns_false (is_time to_datetime_reject (PyDate ?d))" by blast
  from date_time_predicates_agree [OF c, of "PyTime ?t" ?d ?t] i
  have b: "returns_false (is_date to_datetime_reject (PyTime ?t))
      \<and> returns_true (is_time to_datetime_reject (PyTime ?t))" by blast
  from date_time_predicates_agree [OF c, of "PyDatetime ?d ?t2" ?d ?t2] y i
  have d: "returns_true (is_datetime to_datetime_reject (PyDatetime ?d ?t2))" by blast
  from a b d c [of "PyDate ?d"] show ?thesis by blast
qed

section \<open>Properties of guess_type_by_value\<close>

lemma type_test_outcomes:
  "test value = Inr False \<Longrightarrow> type_test type_str test ty key value = Inr None"
  "test value = Inr True \<Longrightarrow> type_test type_str test ty key value = Inr (Some (key, ty))"
  "test value = Inl (AttributeError m) \<Longrightarrow>
     type_test type_str test ty key value =
       Inr (Some (key, strip (mreplace (type_str value) [(''type'', ''''), (''datetime.'', '''')])
                         [CHR '' '', CHR 0x27, CHR ''<'', CHR ''>'']))"
  by (simp_all add: type_test_def)

lemma first_guess_skip:
  assumes "\<forall>g \<in> set pre. snd g value = Inr False"
  shows "first_guess type_str (pre @ gs) key value = first_guess type_str gs key value"
  using assms by (induction pre) (simp_all add: type_test_outcomes)

lemma first_guess_none:
  assumes "\<forall>g \<in> set gs. snd g value = Inr False"
  shows "first_guess type_str gs key value = Inr None"
  using first_guess_skip [OF assms, of type_str "[]" key] by simp

lemma first_guess_at:
  assumes "i < length gs" and "\<forall>g \<in> set (take i gs). snd g value = Inr False"
  shows "first_guess type_str gs key value =
    (case type_test type_str (snd (gs ! i)) (fst (gs ! i)) key value of
       Inl e \<Rightarrow> Inl e
     | Inr (Some result) \<Rightarrow> Inr (Some result)
     | Inr None \<Rightarrow> first_guess type_str (drop (Suc i) gs) key value)"
proof -
  from assms(1) have "gs = take i gs @ gs ! i # drop (Suc i) gs"
    by (simp add: id_take_nth_drop)
  then have "first_guess type_str gs key value
      = first_guess type_str (gs ! i # drop (Suc i) gs) key value"
    using first_guess_skip [OF assms(2), of type_str "gs ! i # drop (Suc i) gs" key] by simp
  then show ?thesis by simp
qed

lemma guess_type_by_value_append:
  assumes "snd (guess_type_by_value ft td vs b z pre) = None"
  shows "guess_type_by_value ft td vs b z (pre @ items) =
    (fst (guess_type_by_value ft td vs b z pre) @ fst (guess_type_by_value ft td vs b z items),
     snd (guess_type_by_value ft td vs b z items))"
  using assms
proof (induction pre)
  case Nil
  then show ?case by simp
next
  case (Cons item pre)
  then show ?case
    by (cases "first_guess py_type_str (value_guess_funcs ft td b z) (fst item) (snd item)")
      (auto simp add: yield_def split: option.splits)
qed

lemma value_guess_funcs_labels:
  "map fst (value_guess_funcs ft td b z) =
    [''null'', ''bool'', ''int'', ''float'', ''datetime'', ''time'', ''date'', ''text'']"
  by (simp add: value_guess_funcs_def)

lemma guess_field_fails:
  assumes "\<forall>g \<in> set (value_guess_funcs ft td b z). snd g value = Inr False"
  shows "guess_type_by_value ft td vs b z ((key, value) # post) = ([], Some (guess_error vs value))"
  by (simp add: first_guess_none [OF assms])

lemma guess_field_passes:
  assumes "i < length (value_guess_funcs ft td b z)"
    and "\<forall>g \<in> set (take i (value_guess_funcs ft td b z)). snd g value = Inr False"
    and "snd (value_guess_funcs ft td b z ! i) value = Inr True"
  shows "guess_type_by_value ft td vs b z ((key, value) # post) =
    yield (key, fst (value_guess_funcs ft td b z ! i)) (guess_type_by_value ft td vs b z post)"
  using first_guess_at [OF assms(1,2), of py_type_str key] assms(3)
  by (simp add: type_test_outcomes)

lemma guess_field_attribute_error:
  assumes "i < length (value_guess_funcs ft td b z)"
    and "\<forall>g \<in> set (take i (value_guess_funcs ft td b z)). snd g value = Inr False"
    and "snd (value_guess_funcs ft td b z ! i) value = Inl (AttributeError m)"
  shows "guess_type_by_value ft td vs b z ((key, value) # post) =
    yield (key, real_type value) (guess_type_by_value ft td vs b z post)"
  using first_guess_at [OF assms(1,2), of py_type_str key] assms(3)
  by (simp add: type_test_outcomes real_type_def)

lemma real_type_list: "real_type (PyList xs) = ''list''"
  by (simp add: real_type_def type_repr_def mreplace_def replace_def strip_def)

lemma list_outcomes:
  "\<forall>g \<in> set (take 5 (value_guess_funcs ft_no_scalar to_datetime_reject b z)).
      snd g (PyList xs) = Inr False"
  "snd (value_guess_funcs ft_no_scalar to_datetime_reject b z ! 5) (PyList xs)
      = Inl (AttributeError ''isoformat'')"
  by (simp_all add: value_guess_funcs_def ft_no_scalar_def truth_def is_datetime_def
      is_time_def try_to_datetime_def to_datetime_reject_def py_and_def)

lemma date_outcomes:
  "\<forall>g \<in> set (take 6 (value_guess_funcs ft_no_scalar to_datetime_reject b z)).
      snd g (PyDate \<lparr>year = 1982, month = 5, day = 4\<rparr>) = Inr False"
  "snd (value_guess_funcs ft_no_scalar to_datetime_reject b z ! 6)
      (PyDate \<lparr>year = 1982, month = 5, day = 4\<rparr>) = Inr True"
  by (simp_all add: value_guess_funcs_def ft_no_scalar_def truth_def is_datetime_def
      is_time_def is_date_def try_to_datetime_def to_datetime_reject_def py_and_def
      NULL_YEAR_def)

lemma midnight_outcomes:
  "\<forall>g \<in> set (value_guess_funcs ft_no_scalar to_datetime_reject b z).
      snd g (PyTime \<lparr>hour = 0, minute = 0, second = 0, microsecond = 0\<rparr>) = Inr False"
  by (simp add: value_guess_funcs_def ft_no_scalar_def truth_def is_datetime_def
      is_time_def is_date_def try_to_datetime_def to_datetime_reject_def py_and_def)

text \<open>
  Claim C8, as stated, fails: a list matches none of the rules (the \<open>datetime\<close> test
  returns false, the \<open>time\<close> test raises \<open>AttributeError\<close>, and a list parses as no
  scalar) and has no \<open>lower\<close>, yet the call does not fail: the field is yielded with
  the name of its runtime type.
\<close>

theorem unmatched_list_counterexample:
  "truth (is_datetime to_datetime_reject (PyList [PyInt 1])) = Inr False
   \<and> truth (is_time to_datetime_reject (PyList [PyInt 1])) = Inl (AttributeError ''isoformat'')
   \<and> \<not> hasattr_lower (PyList [PyInt 1])
   \<and> guess_type_by_value ft_no_scalar to_datetime_reject example_str True False
        [(''a'', PyList [PyInt 1])] = ([(''a'', ''list'')], None)"
proof -
  have a: "truth (is_datetime to_datetime_reject (PyList [PyInt 1])) = Inr False"
    by (simp add: truth_def is_datetime_def try_to_datetime_def to_datetime_reject_def py_and_def)
  have b: "truth (is_time to_datetime_reject (PyList [PyInt 1])) = Inl (AttributeError ''isoformat'')"
    by (simp add: truth_def is_time_def try_to_datetime_def to_datetime_reject_def)
  have l: "(5::nat) < length (value_guess_funcs ft_no_scalar to_datetime_reject True False)"
    by (simp add: value_guess_funcs_def)
  have "guess_type_by_value ft_no_scalar to_datetime_reject example_str True False
        ((''a'', PyList [PyInt 1]) # []) =
      yield (''a'', real_type (PyList [PyInt 1]))
        (guess_type_by_value ft_no_scalar to_datetime_reject example_str True False [])"
    by (rule guess_field_attribute_error [OF l list_outcomes])
  then have c: "guess_type_by_value ft_no_scalar to_datetime_reject example_str True False
        [(''a'', PyList [PyInt 1])] = ([(''a'', ''list'')], None)"
    by (simp add: real_type_list yield_def)
  from a b c show ?thesis by simp
qed

text \<open>
  Claim C8, amended. The rules stand in the order null, bool, int, float, datetime,
  time, date, text, the last one asking for a \<open>lower\<close> method. After fields that were all
  classified, a field on whose value every test returns false makes the call fail with
  \<open>TypeError\<close> (\<open>Couldn't guess type of\<close> the value), nothing being yielded for it or for
  a later field. A field whose first test that does not return false passes is yielded
  with the label of that rule. A field whose first test that does not return false
  raises \<open>AttributeError\<close> is yielded with the name of its runtime type, and the call
  does not fail on it.
\<close>

theorem guess_type_by_value_outcomes:
  assumes "snd (guess_type_by_value ft td vs b z pre) = None"
  shows "map fst (value_guess_funcs ft td b z) =
      [''null'', ''bool'', ''int'', ''float'', ''datetime'', ''time'', ''date'', ''text'']
    \<and> ((\<forall>g \<in> set (value_guess_funcs ft td b z). snd g value = Inr False) \<longrightarrow>
         guess_type_by_value ft td vs b z (pre @ (key, value) # post) =
           (fst (guess_type_by_value ft td vs b z pre),
            Some (TypeError (''Couldn'' @ [CHR 0x27] @ ''t guess type of '' @ [CHR 0x27]
                             @ vs value @ [CHR 0x27]))))
    \<and> (i < 8 \<and> (\<forall>g \<in> set (take i (value_guess_funcs ft td b z)). snd g value = Inr False)
         \<and> snd (value_guess_funcs ft td b z ! i) value = Inr True \<longrightarrow>
         guess_type_by_value ft td vs b z (pre @ (key, value) # post) =
           (fst (guess_type_by_value ft td vs b z pre)
              @ (key, fst (value_guess_funcs ft td b z ! i))
              # fst (guess_type_by_value ft td vs b z post),
            snd (guess_type_by_value ft td vs b z post)))
    \<and> (i < 8 \<and> (\<forall>g \<in> set (take i (value_guess_funcs ft td b z)). snd g value = Inr False)
         \<and> snd (value_guess_funcs ft td b z ! i) value = Inl (AttributeError m) \<longrightarrow>
         guess_type_by_value ft td vs b z (pre @ (key, value) # post) =
           (fst (guess_type_by_value ft td vs b z pre)
              @ (key, real_type value) # fst (guess_type_by_value ft td vs b z post),
            snd (guess_type_by_value ft td vs b z post)))"
proof -
  let ?G = "guess_type_by_value ft td vs b z" and ?fs = "value_guess_funcs ft td b z"
  have len: "length ?fs = 8" by (simp add: value_guess_funcs_def)
  have app: "?G (pre @ (key, value) # post) =
      (fst (?G pre) @ fst (?G ((key, value) # post)), snd (?G ((key, value) # post)))"
    by (rule guess_type_by_value_append [OF assms])
  have c1: "?G (pre @ (key, value) # post) = (fst (?G pre), Some (guess_error vs value))"
    if "\<forall>g \<in> set ?fs. snd g value = Inr False"
    using app guess_field_fails [OF that, of vs key post] by simp
  have c2: "?G (pre @ (key, value) # post) =
      (fst (?G pre) @ (key, fst (?fs ! i)) # fst (?G post), snd (?G post))"
    if "i < 8" "\<forall>g \<in> set (take i ?fs). snd g value = Inr False" "snd (?fs ! i) value = Inr True"
  proof -
    from that(1) len have "i < length ?fs" by simp
    from guess_field_passes [OF this that(2,3), of vs key post] app
    show ?thesis by (simp add: yield_def)
  qed
  have c3: "?G (pre @ (key, value) # post) =
      (fst (?G pre) @ (key, real_type value) # fst (?G post), snd (?G post))"
    if "i < 8" "\<forall>g \<in> set (take i ?fs). snd g value = Inr False"
      "snd (?fs ! i) value = Inl (AttributeError m)"
  proof -
    from that(1) len have "i < length ?fs" by simp
    from guess_field_attribute_error [OF this that(2,3), of vs key post] app
    show ?thesis by (simp add: yield_def)
  qed
  from c1 c2 c3 value_guess_funcs_labels [of ft td b z] show ?thesis
    unfolding guess_error_def by blast
qed

text \<open>
  The time 00:00:00 makes the call fail, the date 1982-05-04 is a \<open>date\<close>, and a list is
  reported as \<open>list\<close>.
\<close>

theorem guess_type_by_value_outcomes_witness:
  "snd (guess_type_by_value ft_no_scalar to_datetime_reject example_str True False []) = None
   \<and> guess_type_by_value ft_no_scalar to_datetime_reject example_str True False
        [(''t'', PyTime \<lparr>hour = 0, minute = 0, second = 0, microsecond = 0\<rparr>)]
      = ([], Some (TypeError (''Couldn'' @ [CHR 0x27] @ ''t guess type of '' @ [CHR 0x27]
                             @ ''00:00:00'' @ [CHR 0x27])))
   \<and> guess_type_by_value ft_no_scalar to_datetime_reject example_str True False
        [(''d'', PyDate \<lparr>year = 1982, month = 5, day = 4\<rparr>)]
      = ([(''d'', ''date'')], None)
   \<and> guess_type_by_value ft_no_scalar to_datetime_reject example_str True False
        [(''l'', PyList [])]
      = ([(''l'', ''list'')], None)"
proof -
  let ?G = "guess_type_by_value ft_no_scalar to_datetime_reject example_str True False"
  let ?fs = "value_guess_funcs ft_no_scalar to_datetime_reject True False"
  let ?t = "PyTime \<lparr>hour = 0, minute = 0, second = 0, microsecond = 0\<rparr>"
  let ?d = "PyDate \<lparr>year = 1982, month = 5, day = 4\<rparr>"
  have h: "snd (?G []) = None" by simp
  have s: "example_str ?t = ''00:00:00''"
    by (simp add: example_str_def time_isoformat_def pad2_def digit_def)
  from guess_type_by_value_outcomes [OF h, of ?t "''t''" "[]" 0 "[]"] midnight_outcomes [of True False]
  have "?G ([] @ (''t'', ?t) # []) = (fst (?G []),
      Some (TypeError (''Couldn'' @ [CHR 0x27] @ ''t guess type of '' @ [CHR 0x27]
                             @ example_str ?t @ [CHR 0x27])))"
    by blast
  then have a: "?G [(''t'', ?t)] = ([],
      Some (TypeError (''Couldn'' @ [CHR 0x27] @ ''t guess type of '' @ [CHR 0x27]
                             @ ''00:00:00'' @ [CHR 0x27])))"
    by (simp add: s)
  have "(6::nat) < 8" by simp
  with guess_type_by_value_outcomes [OF h, of ?d "''d''" "[]" 6 "[]"] date_outcomes [of True False]
  have "?G ([] @ (''d'', ?d) # []) = (fst (?G []) @ (''d'', fst (?fs ! 6)) # fst (?G []), snd (?G []))"
    by blast
  then have b: "?G [(''d'', ?d)] = ([(''d'', ''date'')], None)"
    by (simp add: value_guess_funcs_def)
  have "(5::nat) < 8" by simp
  with guess_type_by_value_outcomes [OF h, of "PyList []" "''l''" "[]" 5 "''isoformat''"]
    list_outcomes [of True False "[]"]
  have "?G ([] @ (''l'', PyList []) # []) =
      (fst (?G []) @ (''l'', real_type (PyList [])) # fst (?G []), snd (?G []))"
    by blast
  then have c: "?G [(''l'', PyList [])] = ([(''l'', ''list'')], None)"
    by (simp add: real_type_list)
  from h a b c show ?thesis by blast
qed

section \<open>Properties of read_any\<close>







section \<open>Properties of write\<close>

lemma write_impl_hello:
  "write_impl example_codecs \<lparr>file_bytes = [], file_pos = 0\<rparr> [Bytes ''Hello World'']
      [''chunksize'' \<mapsto> PyInt 2]
    = (([12], None), \<lparr>file_bytes = ''Hello World'', file_pos = 11\<rparr>)"
  by (simp add: write_impl_def kwargs_chunksize_def chunk_def file_write_def
      chunksize_or_len_def)

text \<open>
  Claim C4 on the input of the function's own example: the eleven bytes \<open>Hello World\<close>
  written with \<open>chunksize=2\<close> go to the destination in six pieces, the last of one
  byte; the destination holds eleven bytes and the call returns \<open>12\<close>.
\<close>

theorem write_counts_chunksize_per_piece:
  "io_write example_codecs example_detector no_files (FileObj \<lparr>file_bytes = [], file_pos = 0\<rparr>)
      (Bytes ''Hello World'') ''wb+'' [''chunksize'' \<mapsto> PyInt 2]
    = (Inr 12, Some \<lparr>file_bytes = ''Hello World'', file_pos = 11\<rparr>)
   \<and> length ''Hello World'' = 11"
  by (simp add: io_write_def read_any_def read_any_impl_def write_impl_hello gen_next_def)

section \<open>Properties of read_geojson\<close>

text \<open>
  Where the call of the parser raises \<open>KeyError\<close>, \<open>read_geojson\<close> fails with the
  \<open>TypeError\<close> of the source and yields nothing: the driver raises it again.
\<close>

lemma read_geojson_key_error:
  assumes "items f ''features.item'' = Inl (KeyError k)"
  shows "read_geojson cd det open_file items (FileObj f) mode
    = (([], Some (TypeError ''Only GeoJSON with features are supported.'')), Some f)"
  using assms
  by (simp add: read_geojson_def read_any_def read_any_impl_def geojson_reader_def)

text \<open>
  Where the call returns a generator, nothing is raised for a document without
  features: the records are those of the features the generator yields.
\<close>

lemma read_geojson_generator:
  assumes "items f ''features.item'' = Inr ((features, None), fa)"
    and "snd (feature_records features None) = None"
  shows "read_geojson cd det open_file items (FileObj f) mode
    = (feature_records features None, Some fa)"
  using assms
  by (simp add: read_geojson_def read_any_def read_any_impl_def geojson_reader_def
      split: prod.splits)

text \<open>
  Claim C5 on the document \<open>{"type": "FeatureCollection"}\<close>, read with a parser whose
  call returns a generator: \<open>read_geojson\<close> ends without an error and without a record.
\<close>

theorem read_geojson_without_features_is_empty:
  "read_geojson example_codecs example_detector no_files items_lazy_nothing
      (FileObj geojson_without_features) ''rU''
    = (([], None), Some (snd (file_read geojson_without_features)))"
  by (simp add: read_geojson_def read_any_def read_any_impl_def geojson_reader_def
      items_lazy_nothing_def)

section \<open>Properties of sanitize_sheet\<close>

text \<open>No cell is ever reclassified as a datetime.\<close>

lemma reclassify_never_datetime: "reclassify ty v \<noteq> Name ''datetime''"
  by (simp add: reclassify_def is_integer_attribute_def)

lemma sanitize_date_cell:
  "sanitize_cell api mode kwargs (Date_cell x) =
    (if x < 1 then time_func api mode kwargs (PyFloat x)
     else format_datetime api mode (date_format kwargs) (PyFloat x))"
  by (simp add: sanitize_cell_def reclassify_def is_integer_attribute_def sheet_switch_def
      XL_CELL_DATE_def XL_CELL_EMPTY_def XL_CELL_NUMBER_def XL_CELL_BOOLEAN_def
      XL_CELL_ERROR_def)

text \<open>
  The time format is the keyword argument \<open>date_format\<close> when that is given, and the
  keyword arguments \<open>dt_format\<close> and \<open>time_format\<close> are not read.
\<close>

lemma formats_from_date_format:
  "dt_format (kwargs(''date_format'' \<mapsto> fmt)) = fmt"
  "time_format (kwargs(''date_format'' \<mapsto> fmt)) = fmt"
  "time_format (kwargs(''time_format'' \<mapsto> fmt)) = time_format kwargs"
  "dt_format (kwargs(''dt_format'' \<mapsto> fmt)) = dt_format kwargs"
  by (simp_all add: dt_format_def time_format_def kwargs_get_def)

text \<open>
  Claim C3 on a sheet of one date cell with the number 30075.5, which is not an
  integer, and no keyword arguments: the cell is formatted with the date format
  \<open>%Y-%m-%d\<close>, not with the datetime format \<open>%Y-%m-%d %H:%M:%S\<close>; so is every date cell
  whose number is at least 1.
\<close>

theorem sanitize_sheet_fractional_date:
  "sanitize_sheet api [[Date_cell (60151 / 2)]] mode 0 Map.empty =
     (case format_datetime api mode (PyStr ''%Y-%m-%d'') (PyFloat (60151 / 2)) of
        Inl e \<Rightarrow> ([], Some e)
      | Inr v \<Rightarrow> ([(0, v)], None))
   \<and> sanitize_sheet example_api [[Date_cell (60151 / 2)]] 0 0 Map.empty
       = ([(0, PyStr ''%Y-%m-%d'')], None)
   \<and> sanitize_cell api mode kwargs (Date_cell (1 + abs x)) =
       format_datetime api mode (date_format kwargs) (PyFloat (1 + abs x))"
proof -
  have c: "sanitize_cell api mode Map.empty (Date_cell (60151 / 2))
      = format_datetime api mode (PyStr ''%Y-%m-%d'') (PyFloat (60151 / 2))" for api mode
    by (simp add: sanitize_date_cell date_format_def kwargs_get_def)
  have a: "sanitize_sheet api [[Date_cell (60151 / 2)]] mode 0 Map.empty =
     (case format_datetime api mode (PyStr ''%Y-%m-%d'') (PyFloat (60151 / 2)) of
        Inl e \<Rightarrow> ([], Some e)
      | Inr v \<Rightarrow> ([(0, v)], None))" for api mode
    by (simp add: sanitize_sheet_def c yield_def split: sum.splits)
  have b: "sanitize_sheet example_api [[Date_cell (60151 / 2)]] 0 0 Map.empty
       = ([(0, PyStr ''%Y-%m-%d'')], None)"
    by (simp add: a format_datetime_def example_api_def)
  have d: "sanitize_cell api mode kwargs (Date_cell (1 + abs x)) =
       format_datetime api mode (date_format kwargs) (PyFloat (1 + abs x))"
    by (simp add: sanitize_date_cell)
  from a b d show ?thesis by blast
qed

end
